theory Spec2Isabelle
  imports Complex_Main
begin

section \<open>Values, tensors and errors\<close>

text \<open>
  The module \<^verbatim>\<open>foldflow/models/components/layers.py\<close> computes on torch tensors of
  floating-point numbers. A tensor is modelled as its shape together with its entries in
  row-major order. An entry is a finite number or one of the three special values of the
  floating-point format; arithmetic on finite numbers is exact (rounding, overflow and
  the sign of zero are not modelled), and the special values follow IEEE 754.
\<close>

datatype fval = Fin real | PInf | NInf | NaN

record 'a tensor =
  shape :: "nat list"
  data :: "'a list"

text \<open>Every exception the module can raise is a value; \<open>Inl\<close> carries it.\<close>

datatype error =
    NameError string
  | NotImplementedError string
  | ValueError string
  | ZeroDivisionError
  | IndexError
  | ShapeError

section \<open>Names bound in the module\<close>

text \<open>
  A Python function body looks a free name up in the module's globals, then in the
  builtins, when the line runs; a name bound in neither raises \<^verbatim>\<open>NameError\<close>.
  \<open>module_globals\<close> lists every name the module binds at top level: its imports
  (lines 1 to 11) and its \<^verbatim>\<open>def\<close> and \<^verbatim>\<open>class\<close> statements.
\<close>

definition module_globals :: "string list" where
  "module_globals =
    [''math'', ''Callable'', ''List'', ''Optional'', ''np'', ''torch'', ''rearrange'',
     ''repeat'', ''truncnorm'', ''Tensor'', ''einsum'', ''LayerNorm'',
     ''TransformerEncoderLayer'', ''F'', ''nn'',
     ''_standardize'', ''he_orthogonal_init'', ''Dense'', ''ScaledSiLU'', ''ResidualLayer'',
     ''EfficientInteractionDownProjection'', ''permute_final_dims'', ''flatten_final_dims'',
     ''ipa_point_weights_init_'', ''_prod'', ''_calculate_fan'', ''trunc_normal_init_'',
     ''lecun_normal_init_'', ''he_normal_init_'', ''glorot_uniform_init_'', ''final_init_'',
     ''gating_init_'', ''normal_init_'', ''Linear'', ''exists'', ''uniq'', ''default'',
     ''CrossAttention'', ''CrossAttentionTransformerEncoderLayer'']"

text \<open>The builtins the module refers to.\<close>

definition builtins_used :: "string list" where
  "builtins_used =
    [''len'', ''isinstance'', ''str'', ''super'', ''range'', ''list'', ''max'', ''map'',
     ''NotImplementedError'', ''ValueError'']"

definition lookup_global :: "string \<Rightarrow> error + unit" where
  "lookup_global name =
     (if name \<in> set module_globals \<or> name \<in> set builtins_used then Inr ()
      else Inl (NameError name))"

section \<open>Optional arguments\<close>

text \<open>
  \<^verbatim>\<open>exists(val)\<close> is \<^verbatim>\<open>val is not None\<close>; an optional argument is an \<open>option\<close>.
  \<^verbatim>\<open>default(val, d)\<close> returns \<^verbatim>\<open>val\<close> when it exists; otherwise it evaluates
  \<^verbatim>\<open>d() if isfunction(d) else d\<close>, whose condition looks the name
  \<^verbatim>\<open>isfunction\<close> up first. The fallbacks passed in this module are an integer and
  a tensor, never a function.
\<close>

definition exists :: "'a option \<Rightarrow> bool" where
  "exists val = (val \<noteq> None)"

definition default_val :: "'a option \<Rightarrow> 'a \<Rightarrow> error + 'a" where
  "default_val val d =
     (if exists val then Inr (the val)
      else case lookup_global ''isfunction'' of
             Inl e \<Rightarrow> Inl e
           | Inr _ \<Rightarrow> Inr d)"

section \<open>torch.nn.Linear as the module uses it\<close>

text \<open>
  \<^verbatim>\<open>nn.Linear(in, out, bias)\<close> holds a weight of shape \<open>[out, in]\<close> and, with a bias,
  a vector of shape \<open>[out]\<close>, both filled with random numbers by torch. The random
  numbers are a parameter of the model: \<open>draw name shp\<close> is what is drawn for the
  parameter called \<open>name\<close> of shape \<open>shp\<close>.
\<close>

record nn_Linear =
  in_features :: nat
  out_features :: nat
  weight :: "fval tensor"
  bias :: "fval tensor option"

definition nn_Linear_init ::
  "(string \<Rightarrow> nat list \<Rightarrow> fval list) \<Rightarrow> string \<Rightarrow> nat \<Rightarrow> nat \<Rightarrow> bool \<Rightarrow> nn_Linear" where
  "nn_Linear_init draw name n_in n_out with_bias =
     \<lparr>in_features = n_in, out_features = n_out,
      weight = \<lparr>shape = [n_out, n_in], data = draw (name @ ''.weight'') [n_out, n_in]\<rparr>,
      bias = (if with_bias
              then Some \<lparr>shape = [n_out], data = draw (name @ ''.bias'') [n_out]\<rparr>
              else None)\<rparr>"

section \<open>CrossAttention: construction\<close>

record CrossAttention =
  scale :: real
  heads :: nat
  to_q :: nn_Linear
  to_k :: nn_Linear
  to_v :: nn_Linear
  to_out :: nn_Linear
  dropout_p :: real

text \<open>
  \<^verbatim>\<open>CrossAttention.__init__(query_dim, context_dim=None, heads=8, dim_head=64, dropout=0.0)\<close>,
  lines 391 to 405, statement by statement. \<^verbatim>\<open>dim_head**-0.5\<close> on the integer 0
  raises \<^verbatim>\<open>ZeroDivisionError\<close>.
\<close>

definition CrossAttention_init ::
  "(string \<Rightarrow> nat list \<Rightarrow> fval list) \<Rightarrow> nat \<Rightarrow> nat option \<Rightarrow> nat \<Rightarrow> nat \<Rightarrow> real
     \<Rightarrow> error + CrossAttention" where
  "CrossAttention_init draw query_dim context_dim n_heads dim_head dropout =
     (let inner_dim = dim_head * n_heads in
      case default_val context_dim query_dim of
        Inl e \<Rightarrow> Inl e
      | Inr cdim \<Rightarrow>
          if dim_head = 0 then Inl ZeroDivisionError
          else Inr \<lparr>scale = 1 / sqrt (real dim_head),
                    heads = n_heads,
                    to_q = nn_Linear_init draw ''to_q'' query_dim inner_dim False,
                    to_k = nn_Linear_init draw ''to_k'' cdim inner_dim False,
                    to_v = nn_Linear_init draw ''to_v'' cdim inner_dim False,
                    to_out = nn_Linear_init draw ''to_out.0'' inner_dim query_dim True,
                    dropout_p = dropout\<rparr>)"

section \<open>Arithmetic on tensor entries\<close>

text \<open>
  The operations torch applies entry by entry. On finite numbers they are the exact
  operations of the reals; on the special values they follow IEEE 754: an infinity times
  zero, the difference of equal infinities and zero divided by zero are \<open>NaN\<close>, and
  \<open>NaN\<close> propagates.
\<close>

fun fneg :: "fval \<Rightarrow> fval" where
  "fneg (Fin a) = Fin (- a)"
| "fneg PInf = NInf"
| "fneg NInf = PInf"
| "fneg NaN = NaN"

fun fadd :: "fval \<Rightarrow> fval \<Rightarrow> fval" where
  "fadd (Fin a) (Fin b) = Fin (a + b)"
| "fadd NaN y = NaN"
| "fadd x NaN = NaN"
| "fadd PInf NInf = NaN"
| "fadd NInf PInf = NaN"
| "fadd PInf y = PInf"
| "fadd x PInf = PInf"
| "fadd NInf y = NInf"
| "fadd x NInf = NInf"

definition fsub :: "fval \<Rightarrow> fval \<Rightarrow> fval" where
  "fsub x y = fadd x (fneg y)"

fun fmul :: "fval \<Rightarrow> fval \<Rightarrow> fval" where
  "fmul (Fin a) (Fin b) = Fin (a * b)"
| "fmul NaN y = NaN"
| "fmul x NaN = NaN"
| "fmul (Fin a) PInf = (if 0 < a then PInf else if a < 0 then NInf else NaN)"
| "fmul (Fin a) NInf = (if 0 < a then NInf else if a < 0 then PInf else NaN)"
| "fmul PInf (Fin b) = (if 0 < b then PInf else if b < 0 then NInf else NaN)"
| "fmul NInf (Fin b) = (if 0 < b then NInf else if b < 0 then PInf else NaN)"
| "fmul PInf PInf = PInf"
| "fmul PInf NInf = NInf"
| "fmul NInf PInf = NInf"
| "fmul NInf NInf = PInf"

fun fdiv :: "fval \<Rightarrow> fval \<Rightarrow> fval" where
  "fdiv (Fin a) (Fin b) =
     (if b \<noteq> 0 then Fin (a / b)
      else if 0 < a then PInf else if a < 0 then NInf else NaN)"
| "fdiv NaN y = NaN"
| "fdiv x NaN = NaN"
| "fdiv (Fin a) PInf = Fin 0"
| "fdiv (Fin a) NInf = Fin 0"
| "fdiv PInf (Fin b) = (if 0 \<le> b then PInf else NInf)"
| "fdiv NInf (Fin b) = (if 0 \<le> b then NInf else PInf)"
| "fdiv PInf PInf = NaN"
| "fdiv PInf NInf = NaN"
| "fdiv NInf PInf = NaN"
| "fdiv NInf NInf = NaN"

fun fexp :: "fval \<Rightarrow> fval" where
  "fexp (Fin a) = Fin (exp a)"
| "fexp PInf = PInf"
| "fexp NInf = Fin 0"
| "fexp NaN = NaN"

text \<open>\<^verbatim>\<open>x ** 0.5\<close> on a tensor entry.\<close>

fun fpow_half :: "fval \<Rightarrow> fval" where
  "fpow_half (Fin a) = (if 0 \<le> a then Fin (sqrt a) else NaN)"
| "fpow_half PInf = PInf"
| "fpow_half NInf = PInf"
| "fpow_half NaN = NaN"

fun fmax :: "fval \<Rightarrow> fval \<Rightarrow> fval" where
  "fmax (Fin a) (Fin b) = Fin (max a b)"
| "fmax NaN y = NaN"
| "fmax x NaN = NaN"
| "fmax PInf y = PInf"
| "fmax x PInf = PInf"
| "fmax NInf y = y"
| "fmax x NInf = x"

fun is_finite :: "fval \<Rightarrow> bool" where
  "is_finite (Fin a) = True"
| "is_finite v = False"

fun fsum :: "fval list \<Rightarrow> fval" where
  "fsum [] = Fin 0"
| "fsum (x # xs) = fadd x (fsum xs)"

fun fmax_list :: "fval list \<Rightarrow> fval" where
  "fmax_list [] = NInf"
| "fmax_list (x # xs) = fmax x (fmax_list xs)"

definition dot :: "fval list \<Rightarrow> fval list \<Rightarrow> fval" where
  "dot xs ys = fsum (map2 fmul xs ys)"

section \<open>Tensors in row-major order\<close>

definition numel :: "nat list \<Rightarrow> nat" where
  "numel shp = prod_list shp"

definition well_formed :: "'a tensor \<Rightarrow> bool" where
  "well_formed t = (length (data t) = numel (shape t))"

definition full :: "nat list \<Rightarrow> 'a \<Rightarrow> 'a tensor" where
  "full shp v = \<lparr>shape = shp, data = replicate (numel shp) v\<rparr>"

text \<open>\<^verbatim>\<open>t.fill_(v)\<close>: every entry becomes \<open>v\<close>, the shape stays.\<close>

definition fill :: "'a tensor \<Rightarrow> 'a \<Rightarrow> 'a tensor" where
  "fill t v = t\<lparr>data := replicate (numel (shape t)) v\<rparr>"

text \<open>The \<open>n\<close> consecutive rows of length \<open>k\<close> of a flat list.\<close>

definition rows :: "nat \<Rightarrow> nat \<Rightarrow> 'a list \<Rightarrow> 'a list list" where
  "rows n k xs = map (\<lambda>r. take k (drop (r * k) xs)) [0..<n]"

text \<open>Entries listed by two, three and four indices, the last running fastest.\<close>

definition tab2 :: "nat \<Rightarrow> nat \<Rightarrow> (nat \<Rightarrow> nat \<Rightarrow> 'a) \<Rightarrow> 'a list" where
  "tab2 A B f = concat (map (\<lambda>a. map (f a) [0..<B]) [0..<A])"

definition tab3 :: "nat \<Rightarrow> nat \<Rightarrow> nat \<Rightarrow> (nat \<Rightarrow> nat \<Rightarrow> nat \<Rightarrow> 'a) \<Rightarrow> 'a list" where
  "tab3 A B C f = concat (map (\<lambda>a. tab2 B C (f a)) [0..<A])"

definition tab4 ::
  "nat \<Rightarrow> nat \<Rightarrow> nat \<Rightarrow> nat \<Rightarrow> (nat \<Rightarrow> nat \<Rightarrow> nat \<Rightarrow> nat \<Rightarrow> 'a) \<Rightarrow> 'a list" where
  "tab4 A B C D f = concat (map (\<lambda>a. tab3 B C D (f a)) [0..<A])"

text \<open>
  Broadcasting: two sizes are compatible when they are equal or one of them is 1, and an
  axis of size 1 is read at index 0 whatever the index asked for.
\<close>

definition bdim :: "nat \<Rightarrow> nat \<Rightarrow> nat option" where
  "bdim a b = (if a = b then Some a else if a = 1 then Some b
               else if b = 1 then Some a else None)"

definition bidx :: "nat \<Rightarrow> nat \<Rightarrow> nat" where
  "bidx n i = (if n = 1 then 0 else i)"

text \<open>
  \<^verbatim>\<open>F.linear(x, weight, bias)\<close>, which \<^verbatim>\<open>nn.Linear.forward\<close> calls: every row along the
  last axis of \<open>x\<close> is multiplied with every row of the weight (shape \<open>[out, in]\<close>), and
  the bias is added. A last axis that is not \<open>in\<close> long is a shape error.
\<close>

definition linear_row :: "fval list list \<Rightarrow> fval tensor option \<Rightarrow> fval list \<Rightarrow> fval list" where
  "linear_row ws b xr =
     (let y = map (dot xr) ws in
      case b of None \<Rightarrow> y | Some bt \<Rightarrow> map2 fadd y (data bt))"

definition F_linear :: "fval tensor \<Rightarrow> fval tensor \<Rightarrow> fval tensor option \<Rightarrow> error + fval tensor" where
  "F_linear x w b =
     (case shape w of
        [n_out, n_in] \<Rightarrow>
          if shape x = [] \<or> last (shape x) \<noteq> n_in then Inl ShapeError
          else Inr \<lparr>shape = butlast (shape x) @ [n_out],
                    data = concat (map (linear_row (rows n_out n_in (data w)) b)
                                       (rows (numel (butlast (shape x))) n_in (data x)))\<rparr>
      | _ \<Rightarrow> Inl ShapeError)"

definition nn_Linear_forward :: "nn_Linear \<Rightarrow> fval tensor \<Rightarrow> error + fval tensor" where
  "nn_Linear_forward l x = F_linear x (weight l) (bias l)"

section \<open>The orthogonal initialiser\<close>

text \<open>
  \<^verbatim>\<open>_standardize(kernel)\<close>, lines 14 to 27. \<^verbatim>\<open>torch.var_mean(kernel, dim=axis,
  unbiased=True, keepdim=True)\<close> takes, for every entry, the mean and the unbiased
  variance of the entries that differ from it only in the coordinates listed in
  \<open>axis\<close>; an axis the tensor does not have is an \<^verbatim>\<open>IndexError\<close>.
\<close>

definition eps :: real where
  "eps = 1 / 1000000"

fun unravel :: "nat list \<Rightarrow> nat \<Rightarrow> nat list" where
  "unravel [] i = []"
| "unravel (d # ds) i = (i div numel ds) mod d # unravel ds i"

definition same_group :: "nat list \<Rightarrow> nat list \<Rightarrow> nat \<Rightarrow> nat \<Rightarrow> bool" where
  "same_group axis shp i j =
     list_all (\<lambda>k. k \<in> set axis \<or> unravel shp i ! k = unravel shp j ! k) [0..<length shp]"

definition group_values :: "nat list \<Rightarrow> nat list \<Rightarrow> 'a list \<Rightarrow> nat \<Rightarrow> 'a list" where
  "group_values axis shp xs i = map (\<lambda>j. xs ! j) (filter (same_group axis shp i) [0..<length xs])"

definition mean :: "fval list \<Rightarrow> fval" where
  "mean vs = fdiv (fsum vs) (Fin (real (length vs)))"

definition var_unbiased :: "fval list \<Rightarrow> fval" where
  "var_unbiased vs =
     fdiv (fsum (map (\<lambda>v. fmul (fsub v (mean vs)) (fsub v (mean vs))) vs))
          (Fin (real (length vs) - 1))"

definition standardize :: "fval tensor \<Rightarrow> error + fval tensor" where
  "standardize krn =
     (let axis = (if length (shape krn) = 3 then [0, 1] else [1]) in
      if \<not> list_all (\<lambda>a. a < length (shape krn)) axis then Inl IndexError
      else Inr (krn\<lparr>data :=
             map (\<lambda>i. let g = group_values axis (shape krn) (data krn) i in
                       fdiv (fsub (data krn ! i) (mean g))
                            (fpow_half (fadd (var_unbiased g) (Fin eps))))
                 [0..<length (data krn)]\<rparr>))"

text \<open>
  \<^verbatim>\<open>torch.nn.init.orthogonal_\<close> refuses a tensor of fewer than two dimensions, leaves an
  empty tensor as it is and otherwise overwrites the entries with a random
  (semi-)orthogonal matrix, which \<open>draw\<close> supplies.
\<close>

definition orthogonal ::
  "(string \<Rightarrow> nat list \<Rightarrow> fval list) \<Rightarrow> string \<Rightarrow> fval tensor \<Rightarrow> error + fval tensor" where
  "orthogonal draw name t =
     (if length (shape t) < 2
      then Inl (ValueError ''Only tensors with 2 or more dimensions are supported'')
      else if numel (shape t) = 0 then Inr t
      else Inr (t\<lparr>data := draw name (shape t)\<rparr>))"

text \<open>
  Lines 41 to 44 of \<^verbatim>\<open>he_orthogonal_init\<close>: \<^verbatim>\<open>tensor.shape[:-1].numel()\<close> for three
  dimensions, \<^verbatim>\<open>tensor.shape[1]\<close> otherwise.
\<close>

definition he_fan_in :: "nat list \<Rightarrow> error + nat" where
  "he_fan_in shp =
     (if length shp = 3 then Inr (numel (butlast shp))
      else if length shp < 2 then Inl IndexError
      else Inr (shp ! 1))"

text \<open>
  \<^verbatim>\<open>he_orthogonal_init(tensor)\<close>, lines 30 to 50. The factor \<^verbatim>\<open>(1 / fan_in) ** 0.5\<close> is
  computed on Python numbers: a \<open>fan_in\<close> of 0 raises \<^verbatim>\<open>ZeroDivisionError\<close>.
\<close>

definition he_orthogonal_init ::
  "(string \<Rightarrow> nat list \<Rightarrow> fval list) \<Rightarrow> string \<Rightarrow> fval tensor \<Rightarrow> error + fval tensor" where
  "he_orthogonal_init draw name tensor =
     (case orthogonal draw name tensor of
        Inl e \<Rightarrow> Inl e
      | Inr t1 \<Rightarrow>
          (case he_fan_in (shape t1) of
             Inl e \<Rightarrow> Inl e
           | Inr fan_in \<Rightarrow>
               (case standardize t1 of
                  Inl e \<Rightarrow> Inl e
                | Inr t2 \<Rightarrow>
                    if fan_in = 0 then Inl ZeroDivisionError
                    else Inr (t2\<lparr>data :=
                           map (\<lambda>v. fmul v (Fin (sqrt (1 / real fan_in)))) (data t2)\<rparr>))))"

section \<open>The truncated-normal initialisers\<close>

text \<open>\<^verbatim>\<open>_prod(nums)\<close>, lines 244 to 248: the loop multiplies into \<open>out\<close>.\<close>

fun prod_loop :: "nat \<Rightarrow> nat list \<Rightarrow> nat" where
  "prod_loop out [] = out"
| "prod_loop out (n # nums) = prod_loop (out * n) nums"

definition prod_nums :: "nat list \<Rightarrow> nat" where
  "prod_nums nums = prod_loop 1 nums"

text \<open>
  \<^verbatim>\<open>_calculate_fan(linear_weight_shape, fan="fan_in")\<close>, lines 251 to 263. Unpacking a
  shape that is not a pair raises \<^verbatim>\<open>ValueError\<close>; \<^verbatim>\<open>fan_avg\<close> is a true division.
\<close>

definition calculate_fan :: "nat list \<Rightarrow> string \<Rightarrow> error + real" where
  "calculate_fan linear_weight_shape fan =
     (case linear_weight_shape of
        [fan_out, fan_in] \<Rightarrow>
          if fan = ''fan_in'' then Inr (real fan_in)
          else if fan = ''fan_out'' then Inr (real fan_out)
          else if fan = ''fan_avg'' then Inr ((real fan_in + real fan_out) / 2)
          else Inl (ValueError ''Invalid fan option'')
      | _ \<Rightarrow> Inl (ValueError ''not enough or too many values to unpack''))"

text \<open>
  \<^verbatim>\<open>trunc_normal_init_(weights, scale=1.0, fan="fan_in")\<close>, lines 266 to 277. Two pieces
  of scipy are parameters: \<open>tn_std\<close> is \<^verbatim>\<open>truncnorm.std(a=-2, b=2, loc=0, scale=1)\<close>,
  a positive constant, and \<open>rvs a b loc scl size\<close> is
  \<^verbatim>\<open>truncnorm.rvs(a=a, b=b, loc=loc, scale=scl, size=size)\<close>, the random samples.
  \<^verbatim>\<open>math.sqrt\<close> of a negative number raises \<^verbatim>\<open>ValueError\<close>, and so does
  \<^verbatim>\<open>np.reshape\<close> when the number of samples is not the size of the shape.
\<close>

definition trunc_normal_std :: "real \<Rightarrow> nat list \<Rightarrow> real \<Rightarrow> string \<Rightarrow> error + real" where
  "trunc_normal_std tn_std shp scl fan =
     (case calculate_fan shp fan of
        Inl e \<Rightarrow> Inl e
      | Inr f \<Rightarrow>
          (let scl' = scl / max 1 f in
           if scl' < 0 then Inl (ValueError ''math domain error'')
           else Inr (sqrt scl' / tn_std)))"

definition trunc_normal_init ::
  "real \<Rightarrow> (real \<Rightarrow> real \<Rightarrow> real \<Rightarrow> real \<Rightarrow> nat \<Rightarrow> real list)
     \<Rightarrow> fval tensor \<Rightarrow> real \<Rightarrow> string \<Rightarrow> error + fval tensor" where
  "trunc_normal_init tn_std rvs weights scl fan =
     (case trunc_normal_std tn_std (shape weights) scl fan of
        Inl e \<Rightarrow> Inl e
      | Inr std \<Rightarrow>
          (let a = - 2; b = 2;
               sz = prod_nums (shape weights);
               samples = rvs a b 0 std sz in
           if length samples \<noteq> numel (shape weights)
           then Inl (ValueError ''cannot reshape array'')
           else Inr (weights\<lparr>data := map Fin samples\<rparr>)))"

definition lecun_normal_init ::
  "real \<Rightarrow> (real \<Rightarrow> real \<Rightarrow> real \<Rightarrow> real \<Rightarrow> nat \<Rightarrow> real list) \<Rightarrow> fval tensor
     \<Rightarrow> error + fval tensor" where
  "lecun_normal_init tn_std rvs weights = trunc_normal_init tn_std rvs weights 1 ''fan_in''"

definition he_normal_init ::
  "real \<Rightarrow> (real \<Rightarrow> real \<Rightarrow> real \<Rightarrow> real \<Rightarrow> nat \<Rightarrow> real list) \<Rightarrow> fval tensor
     \<Rightarrow> error + fval tensor" where
  "he_normal_init tn_std rvs weights = trunc_normal_init tn_std rvs weights 2 ''fan_in''"

section \<open>The other initialisers and the Linear layer\<close>

text \<open>
  \<^verbatim>\<open>xavier_uniform_\<close> and \<^verbatim>\<open>kaiming_normal_\<close> are torch's and random: the entries come
  from \<open>draw\<close>. \<^verbatim>\<open>final_init_\<close> and \<^verbatim>\<open>gating_init_\<close> fill the weight with 0.
\<close>

definition glorot_uniform_init ::
  "(string \<Rightarrow> nat list \<Rightarrow> fval list) \<Rightarrow> fval tensor \<Rightarrow> fval tensor" where
  "glorot_uniform_init draw weights = weights\<lparr>data := draw ''xavier_uniform_'' (shape weights)\<rparr>"

definition normal_init ::
  "(string \<Rightarrow> nat list \<Rightarrow> fval list) \<Rightarrow> fval tensor \<Rightarrow> fval tensor" where
  "normal_init draw weights = weights\<lparr>data := draw ''kaiming_normal_'' (shape weights)\<rparr>"

definition final_init :: "fval tensor \<Rightarrow> fval tensor" where
  "final_init weights = fill weights (Fin 0)"

definition gating_init :: "fval tensor \<Rightarrow> fval tensor" where
  "gating_init weights = fill weights (Fin 0)"

text \<open>
  \<^verbatim>\<open>Linear.__init__(in_dim, out_dim, bias=True, init="default", init_fn=None)\<close>, lines
  315 to 371. A custom \<^verbatim>\<open>init_fn\<close> mutates the weight and the bias it is given, or
  raises; the model has it return both.
\<close>

definition Linear_init ::
  "(string \<Rightarrow> nat list \<Rightarrow> fval list) \<Rightarrow> real
     \<Rightarrow> (real \<Rightarrow> real \<Rightarrow> real \<Rightarrow> real \<Rightarrow> nat \<Rightarrow> real list)
     \<Rightarrow> nat \<Rightarrow> nat \<Rightarrow> bool \<Rightarrow> string
     \<Rightarrow> (fval tensor \<Rightarrow> fval tensor option \<Rightarrow> error + fval tensor \<times> fval tensor option) option
     \<Rightarrow> error + nn_Linear" where
  "Linear_init draw tn_std rvs in_dim out_dim with_bias init init_fn =
     (let l0 = nn_Linear_init draw ''Linear'' in_dim out_dim with_bias;
          w0 = weight l0;
          b0 = (if with_bias then map_option (\<lambda>b. fill b (Fin 0)) (bias l0) else bias l0);
          finish = (\<lambda>w b. Inr (l0\<lparr>weight := w, bias := b\<rparr>))
      in
      case init_fn of
        Some f \<Rightarrow> (case f w0 b0 of Inl e \<Rightarrow> Inl e | Inr (w, b) \<Rightarrow> finish w b)
      | None \<Rightarrow>
          if init = ''default''
          then (case lecun_normal_init tn_std rvs w0 of Inl e \<Rightarrow> Inl e | Inr w \<Rightarrow> finish w b0)
          else if init = ''relu''
          then (case he_normal_init tn_std rvs w0 of Inl e \<Rightarrow> Inl e | Inr w \<Rightarrow> finish w b0)
          else if init = ''glorot'' then finish (glorot_uniform_init draw w0) b0
          else if init = ''gating''
          then finish (gating_init w0)
                 (if with_bias then map_option (\<lambda>b. fill b (Fin 1)) b0 else b0)
          else if init = ''normal'' then finish (normal_init draw w0) b0
          else if init = ''final'' then finish (final_init w0) b0
          else Inl (ValueError ''Invalid init string.''))"

section \<open>Dense and ScaledSiLU\<close>

text \<open>
  The \<^verbatim>\<open>activation\<close> argument of \<^verbatim>\<open>Dense\<close> is \<^verbatim>\<open>None\<close>, a string or some other
  object. \<^verbatim>\<open>str.lower\<close> is modelled on the ASCII letters.
\<close>

datatype pyval = PyNone | PyStr string | PyObj

datatype activation_fn = Identity | ScaledSiLU

definition lower_char :: "char \<Rightarrow> char" where
  "lower_char c =
     (case map_of (zip ''ABCDEFGHIJKLMNOPQRSTUVWXYZ'' ''abcdefghijklmnopqrstuvwxyz'') c of
        Some l \<Rightarrow> l
      | None \<Rightarrow> c)"

definition lower :: "string \<Rightarrow> string" where
  "lower s = map lower_char s"

record Dense =
  linear :: nn_Linear
  dense_activation :: activation_fn

text \<open>
  \<^verbatim>\<open>Dense.reset_parameters\<close>, lines 88 to 91: the weight is initialised by
  \<^verbatim>\<open>he_orthogonal_init\<close>, a bias is filled with 0.
\<close>

definition reset_parameters ::
  "(string \<Rightarrow> nat list \<Rightarrow> fval list) \<Rightarrow> nn_Linear \<Rightarrow> error + nn_Linear" where
  "reset_parameters draw l =
     (case he_orthogonal_init draw ''orthogonal_'' (weight l) of
        Inl e \<Rightarrow> Inl e
      | Inr w \<Rightarrow> Inr (l\<lparr>weight := w, bias := map_option (\<lambda>b. fill b (Fin 0)) (bias l)\<rparr>))"

text \<open>
  \<^verbatim>\<open>Dense.__init__(in_features, out_features, bias=False, activation=None)\<close>, lines 67
  to 86. The attributes \<^verbatim>\<open>weight\<close> and \<^verbatim>\<open>bias\<close> of a \<^verbatim>\<open>Dense\<close> are the tensors of its
  \<^verbatim>\<open>linear\<close>.
\<close>

definition Dense_init ::
  "(string \<Rightarrow> nat list \<Rightarrow> fval list) \<Rightarrow> nat \<Rightarrow> nat \<Rightarrow> bool \<Rightarrow> pyval \<Rightarrow> error + Dense" where
  "Dense_init draw n_in n_out with_bias act =
     (case reset_parameters draw (nn_Linear_init draw ''linear'' n_in n_out with_bias) of
        Inl e \<Rightarrow> Inl e
      | Inr l \<Rightarrow>
          (let act' = (case act of PyStr s \<Rightarrow> PyStr (lower s) | _ \<Rightarrow> act) in
           if act' \<in> set [PyStr ''swish'', PyStr ''silu'']
           then Inr \<lparr>linear = l, dense_activation = ScaledSiLU\<rparr>
           else if act' = PyNone
           then Inr \<lparr>linear = l, dense_activation = Identity\<rparr>
           else Inl (NotImplementedError
                       ''Activation function not implemented for GemNet (yet).'')))"

text \<open>
  \<^verbatim>\<open>ScaledSiLU.forward\<close>, line 106: \<^verbatim>\<open>SiLU(x) * scale_factor\<close> with
  \<^verbatim>\<open>scale_factor = 1 / 0.6\<close>, and \<^verbatim>\<open>SiLU(x) = x * sigmoid(x)\<close>.
\<close>

definition fsigmoid :: "fval \<Rightarrow> fval" where
  "fsigmoid x = fdiv (Fin 1) (fadd (Fin 1) (fexp (fneg x)))"

definition fsilu :: "fval \<Rightarrow> fval" where
  "fsilu x = fmul x (fsigmoid x)"

definition scale_factor :: real where
  "scale_factor = 1 / (6 / 10)"

definition ScaledSiLU_forward :: "fval \<Rightarrow> fval" where
  "ScaledSiLU_forward x = fmul (fsilu x) (Fin scale_factor)"

fun apply_activation :: "activation_fn \<Rightarrow> fval \<Rightarrow> fval" where
  "apply_activation Identity x = x"
| "apply_activation ScaledSiLU x = ScaledSiLU_forward x"

text \<open>\<^verbatim>\<open>Dense.forward\<close>, lines 93 to 96.\<close>

definition Dense_forward :: "Dense \<Rightarrow> fval tensor \<Rightarrow> error + fval tensor" where
  "Dense_forward d x =
     (case nn_Linear_forward (linear d) x of
        Inl e \<Rightarrow> Inl e
      | Inr y \<Rightarrow> Inr (y\<lparr>data := map (apply_activation (dense_activation d)) (data y)\<rparr>))"

section \<open>ResidualLayer\<close>

text \<open>
  The module defines the class twice with the same body (lines 109 to 137 and 197 to
  225); the second binding is the one in force.
\<close>

record ResidualLayer =
  dense_mlp :: "Dense list"
  inv_sqrt_2 :: real

text \<open>
  The list comprehension of line 213: the layers are built in order, the first error ends
  it. Every layer draws its own random numbers: \<open>draws i\<close> is the source for layer \<open>i\<close>.
\<close>

fun build_layers ::
  "(nat \<Rightarrow> string \<Rightarrow> nat list \<Rightarrow> fval list) \<Rightarrow> nat \<Rightarrow> pyval \<Rightarrow> nat \<Rightarrow> nat
     \<Rightarrow> error + Dense list" where
  "build_layers draws units act i 0 = Inr []"
| "build_layers draws units act i (Suc n) =
     (case Dense_init (draws i) units units False act of
        Inl e \<Rightarrow> Inl e
      | Inr d \<Rightarrow>
          (case build_layers draws units act (Suc i) n of
             Inl e \<Rightarrow> Inl e
           | Inr ds \<Rightarrow> Inr (d # ds)))"

definition ResidualLayer_init ::
  "(nat \<Rightarrow> string \<Rightarrow> nat list \<Rightarrow> fval list) \<Rightarrow> nat \<Rightarrow> nat \<Rightarrow> pyval
     \<Rightarrow> error + ResidualLayer" where
  "ResidualLayer_init draws units nLayers act =
     (case build_layers draws units act 0 nLayers of
        Inl e \<Rightarrow> Inl e
      | Inr ds \<Rightarrow> Inr \<lparr>dense_mlp = ds, inv_sqrt_2 = 1 / sqrt 2\<rparr>)"

text \<open>\<^verbatim>\<open>torch.nn.Sequential.forward\<close>: each layer is applied to the output of the one before.\<close>

fun sequential :: "Dense list \<Rightarrow> fval tensor \<Rightarrow> error + fval tensor" where
  "sequential [] x = Inr x"
| "sequential (d # ds) x =
     (case Dense_forward d x of
        Inl e \<Rightarrow> Inl e
      | Inr y \<Rightarrow> sequential ds y)"

text \<open>
  The sum of two tensors of one shape, and the product of a tensor with a number. The
  two operands of line 223 have one shape whenever every layer maps \<open>units\<close> to \<open>units\<close>,
  as the constructor builds them; torch's broadcasting of different shapes is outside
  the model and reported as a shape error.
\<close>

definition tensor_add :: "fval tensor \<Rightarrow> fval tensor \<Rightarrow> error + fval tensor" where
  "tensor_add a b =
     (if shape a = shape b then Inr (a\<lparr>data := map2 fadd (data a) (data b)\<rparr>)
      else Inl ShapeError)"

definition tensor_scale :: "fval tensor \<Rightarrow> real \<Rightarrow> fval tensor" where
  "tensor_scale a c = a\<lparr>data := map (\<lambda>v. fmul v (Fin c)) (data a)\<rparr>"

text \<open>\<^verbatim>\<open>ResidualLayer.forward\<close>, lines 221 to 225.\<close>

definition ResidualLayer_forward :: "ResidualLayer \<Rightarrow> fval tensor \<Rightarrow> error + fval tensor" where
  "ResidualLayer_forward r inputs =
     (case sequential (dense_mlp r) inputs of
        Inl e \<Rightarrow> Inl e
      | Inr x \<Rightarrow>
          (case tensor_add inputs x of
             Inl e \<Rightarrow> Inl e
           | Inr x' \<Rightarrow> Inr (tensor_scale x' (inv_sqrt_2 r))))"

section \<open>EfficientInteractionDownProjection\<close>

record EfficientInteractionDownProjection =
  num_spherical :: nat
  num_radial :: nat
  emb_size_interm :: nat
  proj_weight :: "fval tensor"

text \<open>
  \<^verbatim>\<open>__init__\<close> and \<^verbatim>\<open>reset_parameters\<close>, lines 154 to 174: the weight of shape
  \<open>(num_spherical, num_radial, emb_size_interm)\<close> starts as uninitialised memory, which
  \<open>draw\<close> supplies, and goes through \<^verbatim>\<open>he_orthogonal_init\<close>.
\<close>

definition EfficientInteractionDownProjection_init ::
  "(string \<Rightarrow> nat list \<Rightarrow> fval list) \<Rightarrow> nat \<Rightarrow> nat \<Rightarrow> nat
     \<Rightarrow> error + EfficientInteractionDownProjection" where
  "EfficientInteractionDownProjection_init draw n_sph n_rad n_emb =
     (case he_orthogonal_init draw ''orthogonal_''
             \<lparr>shape = [n_sph, n_rad, n_emb], data = draw ''empty'' [n_sph, n_rad, n_emb]\<rparr> of
        Inl e \<Rightarrow> Inl e
      | Inr w \<Rightarrow> Inr \<lparr>num_spherical = n_sph, num_radial = n_rad, emb_size_interm = n_emb,
                       proj_weight = w\<rparr>)"

text \<open>
  \<^verbatim>\<open>torch.matmul(rbf_env, self.weight)\<close> with a weight of three dimensions \<open>(S, R, I)\<close>:
  the last axis of the left operand is contracted with the middle axis of the weight,
  and the leading axis is broadcast. A left operand of two dimensions is read as one with
  a leading axis of size 1. For every other number of dimensions either the product or
  the \<^verbatim>\<open>permute(1, 2, 0)\<close> that follows raises; both are the shape error here.
\<close>

definition matmul_entry ::
  "fval list \<Rightarrow> fval list \<Rightarrow> nat \<Rightarrow> nat \<Rightarrow> nat \<Rightarrow> nat \<Rightarrow> nat \<Rightarrow> nat \<Rightarrow> nat \<Rightarrow> nat \<Rightarrow> fval" where
  "matmul_entry a w S' S E R I s e i =
     fsum (map (\<lambda>r. fmul (a ! ((bidx S' s * E + e) * R + r))
                          (w ! ((bidx S s * R + r) * I + i))) [0..<R])"

definition matmul_batched :: "nat \<Rightarrow> nat \<Rightarrow> nat \<Rightarrow> fval list \<Rightarrow> fval tensor \<Rightarrow> error + fval tensor" where
  "matmul_batched S' E R' a w =
     (case shape w of
        [S, R, I] \<Rightarrow>
          if R' \<noteq> R then Inl ShapeError
          else (case bdim S' S of
                  None \<Rightarrow> Inl ShapeError
                | Some B \<Rightarrow>
                    Inr \<lparr>shape = [B, E, I],
                         data = tab3 B E I (matmul_entry a (data w) S' S E R I)\<rparr>)
      | _ \<Rightarrow> Inl ShapeError)"

definition matmul :: "fval tensor \<Rightarrow> fval tensor \<Rightarrow> error + fval tensor" where
  "matmul a w =
     (case shape a of
        [E, R'] \<Rightarrow> matmul_batched 1 E R' (data a) w
      | [S', E, R'] \<Rightarrow> matmul_batched S' E R' (data a) w
      | _ \<Rightarrow> Inl ShapeError)"

text \<open>\<^verbatim>\<open>t.permute(1, 2, 0)\<close>: the entry at \<open>(e, i, s)\<close> of the result is the entry at \<open>(s, e, i)\<close>.\<close>

definition permute_120 :: "'a tensor \<Rightarrow> error + 'a tensor" where
  "permute_120 t =
     (case shape t of
        [S, E, I] \<Rightarrow>
          Inr \<lparr>shape = [E, I, S],
               data = tab3 E I S (\<lambda>e i s. data t ! ((s * E + e) * I + i))\<rparr>
      | _ \<Rightarrow> Inl ShapeError)"

text \<open>
  \<^verbatim>\<open>torch.transpose(t, 1, 2)\<close>: the second and third axes change places, the axes
  after them stay; a tensor of fewer than three dimensions has no axis 2.
\<close>

definition transpose_12 :: "'a tensor \<Rightarrow> error + 'a tensor" where
  "transpose_12 t =
     (case shape t of
        a # b # c # rest \<Rightarrow>
          Inr \<lparr>shape = a # c # b # rest,
               data = tab4 a c b (numel rest)
                        (\<lambda>i k j p. data t ! (((i * b + j) * c + k) * numel rest + p))\<rparr>
      | _ \<Rightarrow> Inl IndexError)"

text \<open>\<^verbatim>\<open>EfficientInteractionDownProjection.forward(tbf)\<close>, lines 176 to 194.\<close>

definition EfficientInteractionDownProjection_forward ::
  "EfficientInteractionDownProjection \<Rightarrow> fval tensor \<times> fval tensor
     \<Rightarrow> error + fval tensor \<times> fval tensor" where
  "EfficientInteractionDownProjection_forward m tbf =
     (case tbf of (rbf_env, sph) \<Rightarrow>
        (case matmul rbf_env (proj_weight m) of
           Inl e \<Rightarrow> Inl e
         | Inr rbf_W1 \<Rightarrow>
             (case permute_120 rbf_W1 of
                Inl e \<Rightarrow> Inl e
              | Inr rbf_W1' \<Rightarrow>
                  (case transpose_12 sph of
                     Inl e \<Rightarrow> Inl e
                   | Inr sph' \<Rightarrow> Inr (rbf_W1', sph')))))"

section \<open>CrossAttention: the forward pass\<close>

text \<open>
  \<^verbatim>\<open>rearrange(t, "b n (h d) -> (b h) n d", h=h)\<close>: the last axis is cut into \<open>h\<close> heads,
  which move next to the batch axis. einops raises when the tensor does not have three
  axes or the last one is not a multiple of \<open>h\<close>.
\<close>

definition split_heads :: "nat \<Rightarrow> 'a tensor \<Rightarrow> error + 'a tensor" where
  "split_heads h t =
     (case shape t of
        [b, n, c] \<Rightarrow>
          if h = 0 \<or> c mod h \<noteq> 0 then Inl ShapeError
          else (let d = c div h in
                Inr \<lparr>shape = [b * h, n, d],
                     data = tab3 (b * h) n d
                       (\<lambda>bh i k. data t ! (((bh div h) * n + i) * c + (bh mod h) * d + k))\<rparr>)
      | _ \<Rightarrow> Inl ShapeError)"

text \<open>\<^verbatim>\<open>rearrange(out, "(b h) n d -> b n (h d)", h=h)\<close>, the way back.\<close>

definition merge_heads :: "nat \<Rightarrow> 'a tensor \<Rightarrow> error + 'a tensor" where
  "merge_heads h t =
     (case shape t of
        [bh, n, d] \<Rightarrow>
          if h = 0 \<or> bh mod h \<noteq> 0 then Inl ShapeError
          else Inr \<lparr>shape = [bh div h, n, h * d],
                    data = tab3 (bh div h) n (h * d)
                      (\<lambda>b i c. data t ! (((b * h + c div d) * n + i) * d + c mod d))\<rparr>
      | _ \<Rightarrow> Inl ShapeError)"

text \<open>
  \<^verbatim>\<open>einsum("b i d, b j d -> b i j", q, k)\<close> and \<^verbatim>\<open>einsum("b i j, b j d -> b i d", attn, v)\<close>.
  torch broadcasts an axis of size 1 against the axis of the same letter.
\<close>

definition einsum_bid_bjd :: "fval tensor \<Rightarrow> fval tensor \<Rightarrow> error + fval tensor" where
  "einsum_bid_bjd q k =
     (case (shape q, shape k) of
        ([bq, n, dq], [bk, m, dk]) \<Rightarrow>
          (case (bdim bq bk, bdim dq dk) of
             (Some b, Some d) \<Rightarrow>
               Inr \<lparr>shape = [b, n, m],
                    data = tab3 b n m
                      (\<lambda>bb i j. fsum (map (\<lambda>c.
                          fmul (data q ! ((bidx bq bb * n + i) * dq + bidx dq c))
                               (data k ! ((bidx bk bb * m + j) * dk + bidx dk c))) [0..<d]))\<rparr>
           | _ \<Rightarrow> Inl ShapeError)
      | _ \<Rightarrow> Inl ShapeError)"

definition einsum_bij_bjd :: "fval tensor \<Rightarrow> fval tensor \<Rightarrow> error + fval tensor" where
  "einsum_bij_bjd a v =
     (case (shape a, shape v) of
        ([ba, n, ma], [bv, mv, d]) \<Rightarrow>
          (case (bdim ba bv, bdim ma mv) of
             (Some b, Some m) \<Rightarrow>
               Inr \<lparr>shape = [b, n, d],
                    data = tab3 b n d
                      (\<lambda>bb i c. fsum (map (\<lambda>j.
                          fmul (data a ! ((bidx ba bb * n + i) * ma + bidx ma j))
                               (data v ! ((bidx bv bb * mv + bidx mv j) * d + c))) [0..<m]))\<rparr>
           | _ \<Rightarrow> Inl ShapeError)
      | _ \<Rightarrow> Inl ShapeError)"

text \<open>
  Lines 420 and 422: \<^verbatim>\<open>rearrange(mask, "b ... -> b (...)")\<close> flattens every axis after
  the first, and \<^verbatim>\<open>repeat(mask, "b j -> (b h) () j", h=h)\<close> copies each batch row for
  the \<open>h\<close> heads and inserts an axis of size 1.
\<close>

definition flatten_mask :: "bool tensor \<Rightarrow> error + bool tensor" where
  "flatten_mask msk =
     (case shape msk of
        [] \<Rightarrow> Inl ShapeError
      | b # rest \<Rightarrow> Inr \<lparr>shape = [b, numel rest], data = data msk\<rparr>)"

definition repeat_mask :: "nat \<Rightarrow> bool tensor \<Rightarrow> error + bool tensor" where
  "repeat_mask h msk =
     (case shape msk of
        [b, j] \<Rightarrow>
          Inr \<lparr>shape = [b * h, 1, j],
               data = tab3 (b * h) 1 j (\<lambda>bh u jj. data msk ! ((bh div h) * j + jj))\<rparr>
      | _ \<Rightarrow> Inl ShapeError)"

text \<open>
  \<^verbatim>\<open>sim.masked_fill_(~mask, value)\<close> writes \<open>value\<close> wherever the mask, broadcast to
  the shape of \<open>sim\<close>, is false. It works in place, so the mask must broadcast to that
  very shape.
\<close>

definition masked_fill_not :: "fval tensor \<Rightarrow> bool tensor \<Rightarrow> fval \<Rightarrow> error + fval tensor" where
  "masked_fill_not sim msk v =
     (case (shape sim, shape msk) of
        ([b, n, m], [bm, nm, jm]) \<Rightarrow>
          if (bm = b \<or> bm = 1) \<and> (nm = n \<or> nm = 1) \<and> (jm = m \<or> jm = 1)
          then Inr (sim\<lparr>data := tab3 b n m
                 (\<lambda>bb i j. if \<not> data msk ! ((bidx bm bb * nm + bidx nm i) * jm + bidx jm j)
                            then v
                            else data sim ! ((bb * n + i) * m + j))\<rparr>)
          else Inl ShapeError
      | _ \<Rightarrow> Inl ShapeError)"

text \<open>
  \<^verbatim>\<open>sim.softmax(dim=-1)\<close>: along the last axis, every entry loses the maximum of its
  row, is exponentiated and divided by the sum of the row.
\<close>

definition softmax_row :: "fval list \<Rightarrow> fval list" where
  "softmax_row xs =
     (let mx = fmax_list xs;
          es = map (\<lambda>x. fexp (fsub x mx)) xs;
          z = fsum es
      in map (\<lambda>e. fdiv e z) es)"

definition softmax_last :: "fval tensor \<Rightarrow> fval tensor" where
  "softmax_last t =
     t\<lparr>data := concat (map softmax_row
                  (rows (numel (butlast (shape t))) (last (shape t)) (data t)))\<rparr>"

text \<open>
  Lines 417 to 426: the similarities, the mask and the softmax. \<open>finfo_max\<close> is
  \<^verbatim>\<open>torch.finfo(sim.dtype).max\<close>, the largest finite number of the tensor's
  floating-point type.
\<close>

definition masked_sim ::
  "real \<Rightarrow> nat \<Rightarrow> fval tensor \<Rightarrow> bool tensor option \<Rightarrow> error + fval tensor" where
  "masked_sim finfo_max h sim msk =
     (if exists msk
      then (case flatten_mask (the msk) of
              Inl e \<Rightarrow> Inl e
            | Inr mask1 \<Rightarrow>
                (let max_neg_value = - finfo_max in
                 case repeat_mask h mask1 of
                   Inl e \<Rightarrow> Inl e
                 | Inr mask2 \<Rightarrow> masked_fill_not sim mask2 (Fin max_neg_value)))
      else Inr sim)"

definition attention_weights ::
  "real \<Rightarrow> nat \<Rightarrow> real \<Rightarrow> fval tensor \<Rightarrow> fval tensor \<Rightarrow> bool tensor option
     \<Rightarrow> error + fval tensor" where
  "attention_weights finfo_max h scl q k msk =
     (case einsum_bid_bjd q k of
        Inl e \<Rightarrow> Inl e
      | Inr qk \<Rightarrow>
          (case masked_sim finfo_max h (tensor_scale qk scl) msk of
             Inl e \<Rightarrow> Inl e
           | Inr sim \<Rightarrow> Inr (softmax_last sim)))"

text \<open>
  \<^verbatim>\<open>CrossAttention.forward(x, context=None, mask=None)\<close>, lines 407 to 430. The
  dropout layer at the end of \<^verbatim>\<open>to_out\<close> is random while training and the identity
  otherwise: what it does in this call is the parameter \<open>dropout_fn\<close>.
\<close>

definition CrossAttention_forward ::
  "real \<Rightarrow> (fval tensor \<Rightarrow> fval tensor) \<Rightarrow> CrossAttention \<Rightarrow> fval tensor
     \<Rightarrow> fval tensor option \<Rightarrow> bool tensor option \<Rightarrow> error + fval tensor" where
  "CrossAttention_forward finfo_max dropout_fn m x context msk =
     (let h = heads m in
      case nn_Linear_forward (to_q m) x of
        Inl e \<Rightarrow> Inl e
      | Inr q \<Rightarrow>
      (case default_val context x of
        Inl e \<Rightarrow> Inl e
      | Inr ctx \<Rightarrow>
      (case nn_Linear_forward (to_k m) ctx of
        Inl e \<Rightarrow> Inl e
      | Inr k \<Rightarrow>
      (case nn_Linear_forward (to_v m) ctx of
        Inl e \<Rightarrow> Inl e
      | Inr v \<Rightarrow>
      (case split_heads h q of
        Inl e \<Rightarrow> Inl e
      | Inr q' \<Rightarrow>
      (case split_heads h k of
        Inl e \<Rightarrow> Inl e
      | Inr k' \<Rightarrow>
      (case split_heads h v of
        Inl e \<Rightarrow> Inl e
      | Inr v' \<Rightarrow>
      (case attention_weights finfo_max h (scale m) q' k' msk of
        Inl e \<Rightarrow> Inl e
      | Inr attn \<Rightarrow>
      (case einsum_bij_bjd attn v' of
        Inl e \<Rightarrow> Inl e
      | Inr out \<Rightarrow>
      (case merge_heads h out of
        Inl e \<Rightarrow> Inl e
      | Inr out' \<Rightarrow>
      (case nn_Linear_forward (to_out m) out' of
        Inl e \<Rightarrow> Inl e
      | Inr y \<Rightarrow> Inr (dropout_fn y))))))))))))"

section \<open>CrossAttentionTransformerEncoderLayer: construction\<close>

text \<open>
  The \<^verbatim>\<open>activation\<close> argument is a name, one of torch's two recognised functions or
  modules, or any other callable.
\<close>

datatype activation_arg =
    ActName string
  | ActFRelu
  | ActFGelu
  | ActReLUModule
  | ActGELUModule
  | ActOther

record 'b CrossAttentionTransformerEncoderLayer =
  base :: 'b
  attn :: CrossAttention
  activation :: activation_arg
  activation_relu_or_gelu :: nat
  norm_dim :: nat
  layer_dropout :: real



section \<open>Notions the properties are stated with\<close>

text \<open>
  An activation argument is recognised when it is \<^verbatim>\<open>None\<close> or a string that reads
  \<^verbatim>\<open>swish\<close> or \<^verbatim>\<open>silu\<close> once its capital letters are lowered.
\<close>

definition recognised_activation :: "pyval \<Rightarrow> bool" where
  "recognised_activation act =
     (case act of
        PyNone \<Rightarrow> True
      | PyStr s \<Rightarrow> lower s = ''swish'' \<or> lower s = ''silu''
      | PyObj \<Rightarrow> False)"

text \<open>A bias-free \<^verbatim>\<open>Dense\<close> layer from \<open>units\<close> to \<open>units\<close> whose weight is all zero.\<close>

definition zero_dense :: "nat \<Rightarrow> Dense \<Rightarrow> bool" where
  "zero_dense units d =
     (weight (linear d) = full [units, units] (Fin 0) \<and> bias (linear d) = None)"

definition all_finite :: "fval tensor \<Rightarrow> bool" where
  "all_finite t = list_all is_finite (data t)"



text \<open>A one-by-one \<^verbatim>\<open>Dense\<close> layer with weight 0, no bias and the scaled SiLU.\<close>

definition zero_layer :: Dense where
  "zero_layer = \<lparr>linear = \<lparr>in_features = 1, out_features = 1,
                            weight = \<lparr>shape = [1, 1], data = [Fin 0]\<rparr>, bias = None\<rparr>,
                 dense_activation = ScaledSiLU\<rparr>"

text \<open>
  The module \<^verbatim>\<open>CrossAttention(1, 1, heads=1, dim_head=1)\<close> with every weight and the
  output bias equal to 1.
\<close>

definition unit_attention :: CrossAttention where
  "unit_attention =
     \<lparr>scale = 1, heads = 1,
      to_q = \<lparr>in_features = 1, out_features = 1,
              weight = \<lparr>shape = [1, 1], data = [Fin 1]\<rparr>, bias = None\<rparr>,
      to_k = \<lparr>in_features = 1, out_features = 1,
              weight = \<lparr>shape = [1, 1], data = [Fin 1]\<rparr>, bias = None\<rparr>,
      to_v = \<lparr>in_features = 1, out_features = 1,
              weight = \<lparr>shape = [1, 1], data = [Fin 1]\<rparr>, bias = None\<rparr>,
      to_out = \<lparr>in_features = 1, out_features = 1,
                weight = \<lparr>shape = [1, 1], data = [Fin 1]\<rparr>,
                bias = Some \<lparr>shape = [1], data = [Fin 1]\<rparr>\<rparr>,
      dropout_p = 0\<rparr>"

section \<open>Name lookup\<close>

lemma lookup_isfunction: "lookup_global ''isfunction'' = Inl (NameError ''isfunction'')"
  by (simp add: lookup_global_def module_globals_def builtins_used_def)


lemma default_Some: "default_val (Some v) d = Inr v"
  by (simp add: default_val_def exists_def)

lemma default_None: "default_val None d = Inl (NameError ''isfunction'')"
  by (simp add: default_val_def exists_def lookup_isfunction)

section \<open>The encoder layer's attention module\<close>



section \<open>Constructing the encoder layer\<close>





section \<open>Reading a tabulated list by its indices\<close>

lemma length_concat_uniform:
  "(\<And>a. a < A \<Longrightarrow> length (g a) = L) \<Longrightarrow> length (concat (map g [0..<A])) = A * L"
  by (induction A) simp_all

lemma nth_concat_uniform:
  assumes "\<And>a. a < A \<Longrightarrow> length (g a) = L" "a < A" "j < L"
  shows "concat (map g [0..<A]) ! (a * L + j) = g a ! j"
  using assms
proof (induction A)
  case 0
  then show ?case by simp
next
  case (Suc A)
  have len: "length (concat (map g [0..<A])) = A * L"
    by (rule length_concat_uniform) (simp add: Suc.prems(1))
  show ?case
  proof (cases "a < A")
    case True
    then have "Suc a \<le> A" by simp
    then have "Suc a * L \<le> A * L" by (rule mult_le_mono1)
    with Suc.prems(3) have "a * L + j < A * L" by simp
    moreover have "concat (map g [0..<A]) ! (a * L + j) = g a ! j"
      by (rule Suc.IH) (simp_all add: Suc.prems True)
    ultimately show ?thesis by (simp add: nth_append len)
  next
    case False
    with Suc.prems(2) have "a = A" by simp
    then show ?thesis by (simp add: nth_append len)
  qed
qed

lemma length_tab2: "length (tab2 A B f) = A * B"
  unfolding tab2_def by (rule length_concat_uniform) simp

lemma nth_tab2: "a < A \<Longrightarrow> b < B \<Longrightarrow> tab2 A B f ! (a * B + b) = f a b"
  unfolding tab2_def by (subst nth_concat_uniform [where L = B]) simp_all

lemma length_tab3: "length (tab3 A B C f) = A * B * C"
proof -
  have "length (tab3 A B C f) = A * (B * C)"
    unfolding tab3_def by (rule length_concat_uniform) (simp add: length_tab2)
  then show ?thesis by simp
qed

lemma index2_less: "b < B \<Longrightarrow> c < C \<Longrightarrow> b * C + c < B * (C::nat)"
proof -
  assume "b < B" "c < C"
  then have "Suc b * C \<le> B * C" by (intro mult_le_mono1) simp
  with \<open>c < C\<close> show ?thesis by simp
qed

lemma nth_tab3:
  assumes "a < A" "b < B" "c < C"
  shows "tab3 A B C f ! ((a * B + b) * C + c) = f a b c"
proof -
  have "tab3 A B C f ! (a * (B * C) + (b * C + c)) = tab2 B C (f a) ! (b * C + c)"
    unfolding tab3_def
    by (rule nth_concat_uniform) (simp_all add: length_tab2 assms index2_less)
  also have "\<dots> = f a b c" by (simp add: nth_tab2 assms)
  finally show ?thesis by (simp add: algebra_simps)
qed

lemma length_tab4: "length (tab4 A B C D f) = A * B * C * D"
proof -
  have "length (tab4 A B C D f) = A * (B * C * D)"
    unfolding tab4_def by (rule length_concat_uniform) (simp add: length_tab3)
  then show ?thesis by simp
qed

lemma nth_tab4:
  assumes "a < A" "b < B" "c < C" "d < D"
  shows "tab4 A B C D f ! (((a * B + b) * C + c) * D + d) = f a b c d"
proof -
  have bc: "b * C + c < B * C" using assms by (simp add: index2_less)
  then have "(b * C + c) * D + d < B * C * D" using assms(4) by (rule index2_less)
  then have "tab4 A B C D f ! (a * (B * C * D) + ((b * C + c) * D + d))
               = tab3 B C D (f a) ! ((b * C + c) * D + d)"
    unfolding tab4_def
    by (intro nth_concat_uniform) (simp_all add: length_tab3 assms)
  also have "\<dots> = f a b c d" by (simp add: nth_tab3 assms)
  finally show ?thesis by (simp add: algebra_simps)
qed

section \<open>Auxiliary facts on entries, rows and shapes\<close>

lemma fadd_zero_right: "fadd v (Fin 0) = v"
  by (cases v) simp_all

lemma fmul_fin_zero: "is_finite v \<Longrightarrow> fmul v (Fin 0) = Fin 0"
  by (cases v) simp_all

lemma fsum_zeros: "fsum (replicate n (Fin 0)) = Fin 0"
  by (induction n) simp_all

lemma dot_zero_row:
  "list_all is_finite xs \<Longrightarrow> dot xs (replicate k (Fin 0)) = Fin 0"
proof (induction xs arbitrary: k)
  case Nil
  then show ?case by (simp add: dot_def)
next
  case (Cons x xs)
  show ?case
  proof (cases k)
    case 0
    then show ?thesis by (simp add: dot_def)
  next
    case (Suc j)
    from Cons.prems have fx: "is_finite x" and fxs: "list_all is_finite xs" by simp_all
    have "dot xs (replicate j (Fin 0)) = Fin 0" using Cons.IH [OF fxs] .
    then show ?thesis using fx Suc by (simp add: dot_def fmul_fin_zero)
  qed
qed

lemma min_rows: "r < n \<Longrightarrow> min k (n * k - r * k) = (k::nat)"
proof -
  assume "r < n"
  then have "Suc r \<le> n" by simp
  then have "Suc r * k \<le> n * k" by (rule mult_le_mono1)
  then have "k \<le> n * k - r * k" by simp
  then show ?thesis by simp
qed

lemma rows_replicate: "rows n k (replicate (n * k) v) = replicate n (replicate k v)"
proof -
  have "map (\<lambda>r. take k (drop (r * k) (replicate (n * k) v))) [0..<n] = map (\<lambda>r. replicate k v) [0..<n]"
    by (rule map_cong) (simp_all add: min_rows)
  then show ?thesis by (simp add: rows_def map_replicate_const)
qed

lemma concat_replicate_replicate: "concat (replicate n (replicate k v)) = replicate (n * k) v"
  by (induction n) (simp_all add: replicate_add)

lemma list_all_take_drop: "list_all P xs \<Longrightarrow> list_all P (take k (drop m xs))"
  by (metis append_take_drop_id list_all_append)

lemma numel_butlast_last: "shp \<noteq> [] \<Longrightarrow> numel (butlast shp) * last shp = numel shp"
proof -
  assume "shp \<noteq> []"
  then have "shp = butlast shp @ [last shp]" by simp
  then have "numel shp = numel (butlast shp @ [last shp])" by simp
  then show ?thesis by (simp add: numel_def)
qed

section \<open>A linear layer with an all-zero weight\<close>

lemma linear_row_zero:
  assumes "list_all is_finite xr"
  shows "linear_row (replicate n (replicate k (Fin 0))) None xr = replicate n (Fin 0)"
  using assms by (simp add: linear_row_def dot_zero_row map_replicate_const)

lemma rows_all_finite:
  assumes fin: "list_all is_finite xs" and mem: "xr \<in> set (rows n k xs)"
  shows "list_all is_finite xr"
proof -
  from mem obtain r where "xr = take k (drop (r * k) xs)"
    by (auto simp: rows_def)
  then show ?thesis
    using list_all_take_drop [OF fin, of k "r * k"] by simp
qed

lemma length_rows: "length (rows n k xs) = n"
  by (simp add: rows_def)

lemma map_const_on: "(\<And>x. x \<in> set xs \<Longrightarrow> f x = c) \<Longrightarrow> map f xs = replicate (length xs) c"
  by (induction xs) simp_all

lemma F_linear_zero_rec:
  assumes sh: "shape x \<noteq> []" "last (shape x) = units"
    and fin: "all_finite x"
  shows "F_linear x \<lparr>shape = [units, units], data = replicate (units * units) (Fin 0)\<rparr> None
           = Inr \<lparr>shape = shape x, data = replicate (numel (shape x)) (Fin 0)\<rparr>"
proof -
  let ?n = "numel (butlast (shape x))"
  let ?ws = "rows units units (replicate (units * units) (Fin 0))"
  have ws: "?ws = replicate units (replicate units (Fin 0))"
    by (rule rows_replicate)
  have rowfin: "\<And>xr. xr \<in> set (rows ?n units (data x)) \<Longrightarrow> list_all is_finite xr"
    using fin unfolding all_finite_def by (rule rows_all_finite)
  have "map (linear_row ?ws None) (rows ?n units (data x))
          = replicate (length (rows ?n units (data x))) (replicate units (Fin 0))"
    by (rule map_const_on) (simp only: ws linear_row_zero rowfin)
  then have dat: "concat (map (linear_row ?ws None) (rows ?n units (data x)))
          = replicate (?n * units) (Fin 0)"
    by (simp only: length_rows concat_replicate_replicate)
  have nm: "?n * units = numel (shape x)"
    using numel_butlast_last [OF sh(1)] sh(2) by simp
  have shp: "butlast (shape x) @ [units] = shape x"
    using sh by (metis append_butlast_last_id)
  have "F_linear x \<lparr>shape = [units, units], data = replicate (units * units) (Fin 0)\<rparr> None
          = Inr \<lparr>shape = butlast (shape x) @ [units],
                 data = concat (map (linear_row ?ws None) (rows ?n units (data x)))\<rparr>"
    using sh by (simp add: F_linear_def)
  also have "\<dots> = Inr \<lparr>shape = shape x, data = replicate (numel (shape x)) (Fin 0)\<rparr>"
    by (simp only: dat nm shp)
  finally show ?thesis .
qed

lemma F_linear_zero:
  assumes "shape x \<noteq> []" "last (shape x) = units" "all_finite x"
  shows "F_linear x (full [units, units] (Fin 0)) None = Inr (full (shape x) (Fin 0))"
  using F_linear_zero_rec [OF assms] by (simp add: full_def numel_def)

lemma apply_activation_zero: "apply_activation a (Fin 0) = Fin 0"
  by (cases a) (simp_all add: ScaledSiLU_forward_def fsilu_def fsigmoid_def)

lemma Dense_forward_zero:
  assumes "zero_dense units d" "shape x \<noteq> []" "last (shape x) = units" "all_finite x"
  shows "Dense_forward d x = Inr (full (shape x) (Fin 0))"
proof -
  have "nn_Linear_forward (linear d) x = Inr (full (shape x) (Fin 0))"
    using assms F_linear_zero [of x units] by (simp add: nn_Linear_forward_def zero_dense_def)
  then show ?thesis
    by (simp add: Dense_forward_def full_def apply_activation_zero)
qed

lemma full_zero_finite: "all_finite (full shp (Fin 0))"
  by (simp add: all_finite_def full_def list_all_iff)

lemma sequential_zero:
  assumes "ds \<noteq> []" "list_all (zero_dense units) ds"
    "shape x \<noteq> []" "last (shape x) = units" "all_finite x"
  shows "sequential ds x = Inr (full (shape x) (Fin 0))"
  using assms
proof (induction ds arbitrary: x)
  case Nil
  then show ?case by simp
next
  case (Cons d ds)
  from Cons.prems have d: "zero_dense units d" and rest: "list_all (zero_dense units) ds"
    by simp_all
  have step: "Dense_forward d x = Inr (full (shape x) (Fin 0))"
    using Dense_forward_zero [OF d Cons.prems(3) Cons.prems(4) Cons.prems(5)] .
  show ?case
  proof (cases "ds = []")
    case True
    then show ?thesis by (simp add: step)
  next
    case False
    have "sequential ds (full (shape x) (Fin 0)) = Inr (full (shape (full (shape x) (Fin 0) :: fval tensor)) (Fin 0))"
      by (rule Cons.IH [OF False rest]) (use Cons.prems in \<open>simp_all add: full_def full_zero_finite [unfolded full_def]\<close>)
    then show ?thesis by (simp add: step full_def)
  qed
qed

lemma map2_fadd_zeros: "length xs = n \<Longrightarrow> map2 fadd xs (replicate n (Fin 0)) = xs"
proof (induction xs arbitrary: n)
  case Nil
  then show ?case by simp
next
  case (Cons x xs)
  then obtain m where "n = Suc m" "length xs = m" by (cases n) auto
  then show ?case using Cons.IH [of m] by (simp add: fadd_zero_right)
qed

lemma tensor_add_zero:
  assumes "well_formed x"
  shows "tensor_add x (full (shape x) (Fin 0)) = Inr x"
  using assms by (simp add: tensor_add_def full_def well_formed_def map2_fadd_zeros)

lemma ResidualLayer_forward_zero:
  assumes "dense_mlp r \<noteq> []" "list_all (zero_dense units) (dense_mlp r)"
    "shape x \<noteq> []" "last (shape x) = units" "all_finite x" "well_formed x"
  shows "ResidualLayer_forward r x = Inr (tensor_scale x (inv_sqrt_2 r))"
  using sequential_zero [OF assms(1-5)] tensor_add_zero [OF assms(6)]
  by (simp add: ResidualLayer_forward_def)

section \<open>The orthogonal initialiser\<close>

lemma orthogonal_shape: "orthogonal draw name t = Inr t0 \<Longrightarrow> shape t0 = shape t"
  by (auto simp: orthogonal_def split: if_splits)

lemma orthogonal_rank: "2 \<le> length (shape t) \<Longrightarrow> \<exists>t0. orthogonal draw name t = Inr t0"
  by (simp add: orthogonal_def)

lemma standardize_rank:
  "2 \<le> length (shape t) \<Longrightarrow> \<exists>t2. standardize t = Inr t2 \<and> shape t2 = shape t"
  by (auto simp: standardize_def Let_def)

lemma he_fan_in_rank2: "he_fan_in [fan_out, fan_in] = Inr fan_in"
  by (simp add: he_fan_in_def)

lemma he_fan_in_rank3: "he_fan_in [da, db, fan_out] = Inr (da * db)"
  by (simp add: he_fan_in_def numel_def)

lemma he_orthogonal_init_steps:
  assumes "2 \<le> length (shape t)" "he_fan_in (shape t) = Inr fan" "0 < fan"
  shows "\<exists>t0 t2. orthogonal draw name t = Inr t0 \<and> standardize t0 = Inr t2
           \<and> shape t2 = shape t
           \<and> he_orthogonal_init draw name t =
               Inr (t2\<lparr>data := map (\<lambda>v. fmul v (Fin (sqrt (1 / real fan)))) (data t2)\<rparr>)"
proof -
  from orthogonal_rank [OF assms(1)] obtain t0 where t0: "orthogonal draw name t = Inr t0"
    by blast
  have sh0: "shape t0 = shape t" using orthogonal_shape [OF t0] .
  with assms(1) have "2 \<le> length (shape t0)" by simp
  from standardize_rank [OF this] obtain t2 where t2: "standardize t0 = Inr t2"
    and sh2: "shape t2 = shape t0" by blast
  have "he_orthogonal_init draw name t =
          Inr (t2\<lparr>data := map (\<lambda>v. fmul v (Fin (sqrt (1 / real fan)))) (data t2)\<rparr>)"
    using assms(2,3) by (simp add: he_orthogonal_init_def t0 t2 sh0)
  with t0 t2 sh0 sh2 show ?thesis by simp
qed

text \<open>
  C3, as amended: for a weight of shape \<open>(fan_out, fan_in)\<close> the fan-in is the second,
  that is the last, dimension, and for a weight of shape \<open>(da, db, fan_out)\<close> it is
  \<open>da * db\<close>, the product of all dimensions but the last. When it is not 0, the
  initialiser returns the standardised orthogonal matrix with every entry multiplied by
  \<open>sqrt (1 / fan_in)\<close>.
\<close>

theorem C3_he_orthogonal_init_scaling:
  assumes "shape t = [fan_out, fan_in] \<and> fan = fan_in
           \<or> shape t = [da, db, fan_out] \<and> fan = da * db"
    and "0 < fan"
  shows "he_fan_in (shape t) = Inr fan
         \<and> (\<exists>t0 t2. orthogonal draw name t = Inr t0 \<and> standardize t0 = Inr t2
               \<and> he_orthogonal_init draw name t =
                    Inr (t2\<lparr>data := map (\<lambda>v. fmul v (Fin (sqrt (1 / real fan)))) (data t2)\<rparr>))"
proof -
  from assms(1) have fan: "he_fan_in (shape t) = Inr fan" and rk: "2 \<le> length (shape t)"
    by (auto simp: he_fan_in_rank2 he_fan_in_rank3)
  from he_orthogonal_init_steps [OF rk fan assms(2)] fan show ?thesis by blast
qed

theorem C3_he_orthogonal_init_witness:
  "he_fan_in [2, 3] = Inr 3
   \<and> (\<exists>t0 t2. orthogonal (\<lambda>name shp. replicate 6 (Fin 1)) ''w'' \<lparr>shape = [2, 3], data = replicate 6 (Fin 0)\<rparr> = Inr t0
         \<and> standardize t0 = Inr t2
         \<and> he_orthogonal_init (\<lambda>name shp. replicate 6 (Fin 1)) ''w'' \<lparr>shape = [2, 3], data = replicate 6 (Fin 0)\<rparr>
              = Inr (t2\<lparr>data := map (\<lambda>v. fmul v (Fin (sqrt (1 / real (3::nat))))) (data t2)\<rparr>))
   \<and> he_fan_in [2, 3, 4] = Inr 6"
proof -
  have a: "he_fan_in (shape \<lparr>shape = [2, 3], data = replicate 6 (Fin 0)\<rparr>) = Inr 3
    \<and> (\<exists>t0 t2. orthogonal (\<lambda>name shp. replicate 6 (Fin 1)) ''w'' \<lparr>shape = [2, 3], data = replicate 6 (Fin 0)\<rparr> = Inr t0
         \<and> standardize t0 = Inr t2
         \<and> he_orthogonal_init (\<lambda>name shp. replicate 6 (Fin 1)) ''w'' \<lparr>shape = [2, 3], data = replicate 6 (Fin 0)\<rparr>
              = Inr (t2\<lparr>data := map (\<lambda>v. fmul v (Fin (sqrt (1 / real (3::nat))))) (data t2)\<rparr>))"
    by (rule C3_he_orthogonal_init_scaling [where fan_out = 2 and fan_in = 3 and da = 0 and db = 0])
       simp_all
  have b: "he_fan_in (shape \<lparr>shape = [2, 3, 4], data = replicate 24 (Fin 0)\<rparr>) = Inr 6"
    using C3_he_orthogonal_init_scaling
      [where t = "\<lparr>shape = [2, 3, 4], data = replicate 24 (Fin 0)\<rparr>"
         and da = 2 and db = 3 and fan_out = 4 and fan = 6 and fan_in = 0]
    by simp
  from a b show ?thesis by simp
qed

text \<open>
  For the shape \<open>(3, 5)\<close> the code takes 5 as the fan-in, while the product of all
  dimensions except the last is 3.
\<close>

theorem C3_rank2_fan_in_counterexample:
  "he_fan_in [3, 5] = Inr 5 \<and> numel (butlast [3, 5]) = 3"
  by (simp add: he_fan_in_def numel_def)

section \<open>The Linear layer with the gating initialiser\<close>

text \<open>
  C9: \<^verbatim>\<open>Linear(in_dim, out_dim, bias=True, init="gating")\<close>, with no custom
  \<^verbatim>\<open>init_fn\<close>, returns a layer whose weight of shape \<open>[out_dim, in_dim]\<close> holds 0 in
  every entry and whose bias of shape \<open>[out_dim]\<close> holds 1 in every entry, whatever
  torch drew for them first.
\<close>

theorem C9_gating_init:
  "Linear_init draw tn_std rvs in_dim out_dim True ''gating'' None =
     Inr \<lparr>in_features = in_dim, out_features = out_dim,
          weight = \<lparr>shape = [out_dim, in_dim], data = replicate (out_dim * in_dim) (Fin 0)\<rparr>,
          bias = Some \<lparr>shape = [out_dim], data = replicate out_dim (Fin 1)\<rparr>\<rparr>"
  by (simp add: Linear_init_def Let_def nn_Linear_init_def gating_init_def fill_def numel_def)

section \<open>The truncated-normal initialiser\<close>







section \<open>Dense: the activation is settled at construction\<close>

lemma reset_parameters_ok:
  assumes "0 < n_in"
  shows "\<exists>l. reset_parameters draw (nn_Linear_init draw' nm n_in n_out b) = Inr l"
proof -
  let ?w = "weight (nn_Linear_init draw' nm n_in n_out b)"
  have sh: "shape ?w = [n_out, n_in]" by (simp add: nn_Linear_init_def)
  have "\<exists>t0 t2. orthogonal draw ''orthogonal_'' ?w = Inr t0 \<and> standardize t0 = Inr t2
           \<and> shape t2 = shape ?w
           \<and> he_orthogonal_init draw ''orthogonal_'' ?w =
               Inr (t2\<lparr>data := map (\<lambda>v. fmul v (Fin (sqrt (1 / real n_in)))) (data t2)\<rparr>)"
    by (rule he_orthogonal_init_steps) (simp_all add: sh he_fan_in_rank2 assms)
  then show ?thesis by (auto simp: reset_parameters_def)
qed

lemma Dense_init_unrecognised:
  assumes "\<not> recognised_activation act"
  shows "\<exists>e. Dense_init draw n_in n_out b act = Inl e"
  using assms
  by (auto simp: Dense_init_def recognised_activation_def Let_def split: sum.splits pyval.splits)

lemma Dense_init_unrecognised_error:
  assumes "\<not> recognised_activation act"
    and "reset_parameters draw (nn_Linear_init draw ''linear'' n_in n_out b) = Inr l"
  shows "Dense_init draw n_in n_out b act =
           Inl (NotImplementedError ''Activation function not implemented for GemNet (yet).'')"
  using assms
  by (auto simp: Dense_init_def recognised_activation_def Let_def split: pyval.splits)

lemma F_linear_errors: "F_linear x w b = Inl e \<Longrightarrow> e = ShapeError"
  by (auto simp: F_linear_def split: list.splits if_splits)

lemma Dense_forward_errors: "Dense_forward d x = Inl e \<Longrightarrow> e = ShapeError"
  by (auto simp: Dense_forward_def nn_Linear_forward_def split: sum.splits dest: F_linear_errors)

text \<open>
  C8: constructing a \<^verbatim>\<open>Dense\<close> layer with an activation that is not recognised raises
  an error; once the linear part is initialised, that error is the
  \<^verbatim>\<open>NotImplementedError\<close> of line 84. The forward pass of a \<^verbatim>\<open>Dense\<close> layer never
  raises that error.
\<close>

theorem C8_unknown_activation_fails_construction:
  "(\<not> recognised_activation act \<longrightarrow> (\<exists>e. Dense_init draw n_in n_out b act = Inl e))
   \<and> (\<not> recognised_activation act
        \<and> reset_parameters draw (nn_Linear_init draw ''linear'' n_in n_out b) = Inr l \<longrightarrow>
        Dense_init draw n_in n_out b act =
          Inl (NotImplementedError ''Activation function not implemented for GemNet (yet).''))
   \<and> Dense_forward d x \<noteq> Inl (NotImplementedError msg)"
  using Dense_init_unrecognised [of act draw n_in n_out b]
    Dense_init_unrecognised_error [of act draw n_in n_out b l]
    Dense_forward_errors [of d x "NotImplementedError msg"]
  by blast

theorem C8_unknown_activation_witness:
  "\<not> recognised_activation (PyStr ''ReLU'')
   \<and> Dense_init (\<lambda>name shp. [Fin 1]) 1 1 False (PyStr ''ReLU'') =
       Inl (NotImplementedError ''Activation function not implemented for GemNet (yet).'')
   \<and> recognised_activation (PyStr ''SiLU'')"
proof -
  have u: "\<not> recognised_activation (PyStr ''ReLU'')"
    by (simp add: recognised_activation_def lower_def lower_char_def)
  have r: "recognised_activation (PyStr ''SiLU'')"
    by (simp add: recognised_activation_def lower_def lower_char_def)
  obtain l where l: "reset_parameters (\<lambda>name shp. [Fin 1])
      (nn_Linear_init (\<lambda>name shp. [Fin 1]) ''linear'' 1 1 False) = Inr l"
    using reset_parameters_ok [of 1 "\<lambda>name shp. [Fin 1]" "\<lambda>name shp. [Fin 1]" "''linear''" 1 False]
    by auto
  from C8_unknown_activation_fails_construction
    [of "PyStr ''ReLU''" "\<lambda>name shp. [Fin 1]" 1 1 False l] u l r
  show ?thesis by blast
qed

section \<open>ResidualLayer\<close>

lemma ResidualLayer_init_inv_sqrt_2:
  "ResidualLayer_init draws units nLayers act = Inr r \<Longrightarrow> inv_sqrt_2 r = 1 / sqrt 2"
  by (auto simp: ResidualLayer_init_def split: sum.splits)

text \<open>
  C6, as amended: the forward pass of a \<^verbatim>\<open>ResidualLayer\<close> is
  \<open>(input + stack(input)) * inv_sqrt_2\<close>, where the stack applies the internal
  \<^verbatim>\<open>Dense\<close> layers in order and the constructor sets \<open>inv_sqrt_2\<close> to \<open>1 / sqrt 2\<close>.
  When the layer has at least one internal \<^verbatim>\<open>Dense\<close> layer, each of them has an
  all-zero weight and no bias, every entry of the input is finite and the last dimension
  of the input is \<open>units\<close>, the output is exactly the input times \<open>1 / sqrt 2\<close>.
\<close>

theorem C6_residual_forward:
  "ResidualLayer_forward r x =
     (case sequential (dense_mlp r) x of
        Inl e \<Rightarrow> Inl e
      | Inr y \<Rightarrow> (case tensor_add x y of
                    Inl e \<Rightarrow> Inl e
                  | Inr s \<Rightarrow> Inr (tensor_scale s (inv_sqrt_2 r))))
   \<and> (ResidualLayer_init draws units nLayers act = Inr r \<longrightarrow> inv_sqrt_2 r = 1 / sqrt 2)
   \<and> (dense_mlp r \<noteq> [] \<and> list_all (zero_dense units) (dense_mlp r)
        \<and> shape x \<noteq> [] \<and> last (shape x) = units \<and> well_formed x \<and> all_finite x
        \<and> inv_sqrt_2 r = 1 / sqrt 2 \<longrightarrow>
        ResidualLayer_forward r x = Inr (tensor_scale x (1 / sqrt 2)))"
proof (intro conjI impI)
  show "ResidualLayer_forward r x =
     (case sequential (dense_mlp r) x of
        Inl e \<Rightarrow> Inl e
      | Inr y \<Rightarrow> (case tensor_add x y of
                    Inl e \<Rightarrow> Inl e
                  | Inr s \<Rightarrow> Inr (tensor_scale s (inv_sqrt_2 r))))"
    by (simp add: ResidualLayer_forward_def)
next
  assume "ResidualLayer_init draws units nLayers act = Inr r"
  then show "inv_sqrt_2 r = 1 / sqrt 2" by (rule ResidualLayer_init_inv_sqrt_2)
next
  assume a: "dense_mlp r \<noteq> [] \<and> list_all (zero_dense units) (dense_mlp r)
        \<and> shape x \<noteq> [] \<and> last (shape x) = units \<and> well_formed x \<and> all_finite x
        \<and> inv_sqrt_2 r = 1 / sqrt 2"
  then have "ResidualLayer_forward r x = Inr (tensor_scale x (inv_sqrt_2 r))"
    by (intro ResidualLayer_forward_zero) simp_all
  with a show "ResidualLayer_forward r x = Inr (tensor_scale x (1 / sqrt 2))" by simp
qed

theorem C6_residual_forward_witness:
  "ResidualLayer_forward \<lparr>dense_mlp = [zero_layer, zero_layer], inv_sqrt_2 = 1 / sqrt 2\<rparr>
     \<lparr>shape = [2, 1], data = [Fin 3, Fin (- 1)]\<rparr>
   = Inr \<lparr>shape = [2, 1], data = [Fin (3 * (1 / sqrt 2)), Fin (- 1 * (1 / sqrt 2))]\<rparr>"
proof -
  have z: "zero_dense 1 zero_layer"
    by (simp add: zero_dense_def zero_layer_def full_def numel_def)
  from C6_residual_forward
    [where r = "\<lparr>dense_mlp = [zero_layer, zero_layer], inv_sqrt_2 = 1 / sqrt 2\<rparr>"
       and x = "\<lparr>shape = [2, 1], data = [Fin 3, Fin (- 1)]\<rparr>" and units = 1,
     THEN conjunct2, THEN conjunct2] z
  show ?thesis
    by (simp add: well_formed_def all_finite_def numel_def tensor_scale_def)
qed

text \<open>
  With no internal layer (\<^verbatim>\<open>nLayers=0\<close>) the stack is the identity and the input 1
  gives \<open>2 / sqrt 2\<close>; with one zero layer the input \<open>+inf\<close> gives \<open>NaN\<close>, since
  infinity times zero is not a number, while \<open>+inf\<close> times \<open>1 / sqrt 2\<close> is \<open>+inf\<close>.
\<close>

theorem C6_empty_stack_or_infinite_entry_counterexample:
  "ResidualLayer_init (\<lambda>i name shp. []) 1 0 PyNone = Inr \<lparr>dense_mlp = [], inv_sqrt_2 = 1 / sqrt 2\<rparr>
   \<and> list_all (zero_dense 1) []
   \<and> ResidualLayer_forward \<lparr>dense_mlp = [], inv_sqrt_2 = 1 / sqrt 2\<rparr> \<lparr>shape = [1], data = [Fin 1]\<rparr>
       = Inr \<lparr>shape = [1], data = [Fin (2 * (1 / sqrt 2))]\<rparr>
   \<and> tensor_scale \<lparr>shape = [1], data = [Fin 1]\<rparr> (1 / sqrt 2)
       = \<lparr>shape = [1], data = [Fin (1 / sqrt 2)]\<rparr>
   \<and> 2 * (1 / sqrt 2) \<noteq> 1 / sqrt 2
   \<and> zero_dense 1 zero_layer
   \<and> ResidualLayer_forward \<lparr>dense_mlp = [zero_layer], inv_sqrt_2 = 1 / sqrt 2\<rparr> \<lparr>shape = [1], data = [PInf]\<rparr>
       = Inr \<lparr>shape = [1], data = [NaN]\<rparr>
   \<and> tensor_scale \<lparr>shape = [1], data = [PInf]\<rparr> (1 / sqrt 2) = \<lparr>shape = [1], data = [PInf]\<rparr>"
proof (intro conjI)
  show "ResidualLayer_init (\<lambda>i name shp. []) 1 0 PyNone = Inr \<lparr>dense_mlp = [], inv_sqrt_2 = 1 / sqrt 2\<rparr>"
    by (simp add: ResidualLayer_init_def)
  show "list_all (zero_dense 1) []" by simp
  show "ResidualLayer_forward \<lparr>dense_mlp = [], inv_sqrt_2 = 1 / sqrt 2\<rparr> \<lparr>shape = [1], data = [Fin 1]\<rparr>
       = Inr \<lparr>shape = [1], data = [Fin (2 * (1 / sqrt 2))]\<rparr>"
    by (simp add: ResidualLayer_forward_def tensor_add_def tensor_scale_def)
  show "tensor_scale \<lparr>shape = [1], data = [Fin 1]\<rparr> (1 / sqrt 2)
       = \<lparr>shape = [1], data = [Fin (1 / sqrt 2)]\<rparr>"
    by (simp add: tensor_scale_def)
  show "2 * (1 / sqrt 2) \<noteq> 1 / sqrt 2" by simp
  show "zero_dense 1 zero_layer"
    by (simp add: zero_dense_def zero_layer_def full_def numel_def)
  show "ResidualLayer_forward \<lparr>dense_mlp = [zero_layer], inv_sqrt_2 = 1 / sqrt 2\<rparr> \<lparr>shape = [1], data = [PInf]\<rparr>
       = Inr \<lparr>shape = [1], data = [NaN]\<rparr>"
    by (simp add: ResidualLayer_forward_def Dense_forward_def nn_Linear_forward_def F_linear_def
        zero_layer_def rows_def linear_row_def dot_def numel_def tensor_add_def tensor_scale_def
        ScaledSiLU_forward_def fsilu_def fsigmoid_def)
  show "tensor_scale \<lparr>shape = [1], data = [PInf]\<rparr> (1 / sqrt 2) = \<lparr>shape = [1], data = [PInf]\<rparr>"
    by (simp add: tensor_scale_def)
qed

section \<open>EfficientInteractionDownProjection\<close>

lemma bidx_less: "i < n \<Longrightarrow> bidx n i = i"
  by (auto simp: bidx_def)

lemma he_orthogonal_init_shape:
  "he_orthogonal_init draw name t = Inr t' \<Longrightarrow> shape t' = shape t"
  by (auto simp: he_orthogonal_init_def standardize_def Let_def
      split: sum.splits if_splits dest: orthogonal_shape)

lemma EfficientInteractionDownProjection_init_shape:
  assumes "EfficientInteractionDownProjection_init draw S R I = Inr m"
  shows "num_spherical m = S \<and> num_radial m = R \<and> emb_size_interm m = I
         \<and> shape (proj_weight m) = [S, R, I]"
  using assms
  by (auto simp: EfficientInteractionDownProjection_init_def split: sum.splits
      dest: he_orthogonal_init_shape)

lemma EfficientInteractionDownProjection_init_ok:
  assumes "0 < S * R"
  shows "\<exists>m. EfficientInteractionDownProjection_init draw S R I = Inr m"
proof -
  let ?t = "\<lparr>shape = [S, R, I], data = draw ''empty'' [S, R, I]\<rparr>"
  have "\<exists>t0 t2. orthogonal draw ''orthogonal_'' ?t = Inr t0 \<and> standardize t0 = Inr t2
           \<and> shape t2 = shape ?t
           \<and> he_orthogonal_init draw ''orthogonal_'' ?t =
               Inr (t2\<lparr>data := map (\<lambda>v. fmul v (Fin (sqrt (1 / real (S * R))))) (data t2)\<rparr>)"
    by (rule he_orthogonal_init_steps) (use assms in \<open>simp_all add: he_fan_in_rank3\<close>)
  then show ?thesis by (auto simp: EfficientInteractionDownProjection_init_def)
qed

lemma matmul_rank3:
  assumes "shape a = [S, E, R]" "shape w = [S, R, I]"
  shows "matmul a w = Inr \<lparr>shape = [S, E, I],
           data = tab3 S E I (matmul_entry (data a) (data w) S S E R I)\<rparr>"
  using assms by (simp add: matmul_def matmul_batched_def bdim_def)

lemma permute_120_rank3:
  "permute_120 \<lparr>shape = [S, E, I], data = xs\<rparr> =
     Inr \<lparr>shape = [E, I, S], data = tab3 E I S (\<lambda>e i s. xs ! ((s * E + e) * I + i))\<rparr>"
  by (simp add: permute_120_def)

lemma transpose_12_rank3:
  assumes "shape t = [E, K, S]"
  shows "transpose_12 t =
     Inr \<lparr>shape = [E, S, K],
          data = tab4 E S K 1 (\<lambda>e s k p. data t ! (((e * K + k) * S + s) * 1 + p))\<rparr>"
  using assms by (simp add: transpose_12_def numel_def)

text \<open>
  C7: for a layer with parameters \<open>(num_spherical, num_radial, emb_size_interm)\<close>, whose
  weight has the shape the constructor gives it, and inputs of shapes
  \<open>(num_spherical, num_edges, num_radial)\<close> and \<open>(num_edges, k_max, num_spherical)\<close>,
  the forward pass returns two tensors of shapes \<open>(num_edges, emb_size_interm,
  num_spherical)\<close> and \<open>(num_edges, num_spherical, k_max)\<close>. The second is the input
  with its last two axes transposed; the first holds the plain sums of products over the
  radial axis, with no bias added and no activation applied.
\<close>

theorem C7_down_projection_forward:
  assumes w: "shape (proj_weight m) = [num_spherical m, num_radial m, emb_size_interm m]"
    and a: "shape rbf_env = [num_spherical m, E, num_radial m]"
    and sp: "shape sph = [E, K, num_spherical m]"
  shows "\<exists>rbf_W1 sph'.
           EfficientInteractionDownProjection_forward m (rbf_env, sph) = Inr (rbf_W1, sph')
           \<and> shape rbf_W1 = [E, emb_size_interm m, num_spherical m] \<and> well_formed rbf_W1
           \<and> shape sph' = [E, num_spherical m, K] \<and> well_formed sph'
           \<and> (\<forall>e < E. \<forall>s < num_spherical m. \<forall>k < K.
                 data sph' ! ((e * num_spherical m + s) * K + k)
                   = data sph ! ((e * K + k) * num_spherical m + s))
           \<and> (\<forall>e < E. \<forall>i < emb_size_interm m. \<forall>s < num_spherical m.
                 data rbf_W1 ! ((e * emb_size_interm m + i) * num_spherical m + s) =
                   fsum (map (\<lambda>r. fmul (data rbf_env ! ((s * E + e) * num_radial m + r))
                                        (data (proj_weight m)
                                           ! ((s * num_radial m + r) * emb_size_interm m + i)))
                             [0..<num_radial m]))"
proof -
  let ?S = "num_spherical m" and ?R = "num_radial m" and ?I = "emb_size_interm m"

  let ?mm = "tab3 ?S E ?I (matmul_entry (data rbf_env) (data (proj_weight m)) ?S ?S E ?R ?I)"
  let ?o1 = "\<lparr>shape = [E, ?I, ?S], data = tab3 E ?I ?S (\<lambda>e i s. ?mm ! ((s * E + e) * ?I + i))\<rparr>"
  let ?o2 = "\<lparr>shape = [E, ?S, K],
              data = tab4 E ?S K 1 (\<lambda>e s k p. data sph ! (((e * K + k) * ?S + s) * 1 + p))\<rparr>"
  have fw: "EfficientInteractionDownProjection_forward m (rbf_env, sph) = Inr (?o1, ?o2)"
    by (simp add: EfficientInteractionDownProjection_forward_def matmul_rank3 [OF a w]
        permute_120_rank3 transpose_12_rank3 [OF sp])
  have wf1: "well_formed ?o1" by (simp add: well_formed_def numel_def length_tab3)
  have wf2: "well_formed ?o2" by (simp add: well_formed_def numel_def length_tab4)
  have tr: "\<forall>e < E. \<forall>s < ?S. \<forall>k < K.
      data ?o2 ! ((e * ?S + s) * K + k) = data sph ! ((e * K + k) * ?S + s)"
  proof (intro allI impI)
    fix e s k assume "e < E" "s < ?S" "k < K"
    then have "tab4 E ?S K 1 (\<lambda>e s k p. data sph ! (((e * K + k) * ?S + s) * 1 + p))
                 ! (((e * ?S + s) * K + k) * 1 + 0) = data sph ! (((e * K + k) * ?S + s) * 1 + 0)"
      by (intro nth_tab4) simp_all
    then show "data ?o2 ! ((e * ?S + s) * K + k) = data sph ! ((e * K + k) * ?S + s)"
      by simp
  qed
  have mmv: "\<forall>e < E. \<forall>i < ?I. \<forall>s < ?S.
      data ?o1 ! ((e * ?I + i) * ?S + s) =
        fsum (map (\<lambda>r. fmul (data rbf_env ! ((s * E + e) * ?R + r))
                             (data (proj_weight m) ! ((s * ?R + r) * ?I + i))) [0..<?R])"
  proof (intro allI impI)
    fix e i s assume b: "e < E" "i < ?I" "s < ?S"
    then have "data ?o1 ! ((e * ?I + i) * ?S + s) = ?mm ! ((s * E + e) * ?I + i)"
      by (simp add: nth_tab3)
    also have "\<dots> = matmul_entry (data rbf_env) (data (proj_weight m)) ?S ?S E ?R ?I s e i"
      using b by (simp add: nth_tab3)
    also have "\<dots> = fsum (map (\<lambda>r. fmul (data rbf_env ! ((s * E + e) * ?R + r))
                             (data (proj_weight m) ! ((s * ?R + r) * ?I + i))) [0..<?R])"
      using b by (simp add: matmul_entry_def bidx_less)
    finally show "data ?o1 ! ((e * ?I + i) * ?S + s) =
        fsum (map (\<lambda>r. fmul (data rbf_env ! ((s * E + e) * ?R + r))
                             (data (proj_weight m) ! ((s * ?R + r) * ?I + i))) [0..<?R])" .
  qed
  show ?thesis
    using fw wf1 wf2 tr mmv by (intro exI [of _ ?o1] exI [of _ ?o2]) simp
qed

theorem C7_down_projection_witness:
  "\<exists>m rbf_W1 sph'.
     EfficientInteractionDownProjection_init (\<lambda>name shp. replicate 60 (Fin 1)) 3 4 5 = Inr m
     \<and> EfficientInteractionDownProjection_forward m
          (\<lparr>shape = [3, 2, 4], data = replicate 24 (Fin 1)\<rparr>,
           \<lparr>shape = [2, 6, 3], data = replicate 36 (Fin 1)\<rparr>) = Inr (rbf_W1, sph')
     \<and> shape rbf_W1 = [2, 5, 3] \<and> shape sph' = [2, 3, 6]"
proof -
  obtain m where m: "EfficientInteractionDownProjection_init (\<lambda>name shp. replicate 60 (Fin 1)) 3 4 5 = Inr m"
    using EfficientInteractionDownProjection_init_ok [of 3 4] by auto
  note sh = EfficientInteractionDownProjection_init_shape [OF m]
  from C7_down_projection_forward
    [of m "\<lparr>shape = [3, 2, 4], data = replicate 24 (Fin 1)\<rparr>" 2
        "\<lparr>shape = [2, 6, 3], data = replicate 36 (Fin 1)\<rparr>" 6] sh m
  show ?thesis by auto
qed

section \<open>Masked attention weights\<close>

lemma fmax_list_replicate: "0 < n \<Longrightarrow> fmax_list (replicate n (Fin c)) = Fin c"
proof (induction n)
  case 0
  then show ?case by simp
next
  case (Suc n)
  show ?case
  proof (cases n)
    case 0
    then show ?thesis by simp
  next
    case (Suc k)
    with Suc.IH show ?thesis by simp
  qed
qed

lemma fsum_replicate: "fsum (replicate n (Fin a)) = Fin (real n * a)"
  by (induction n) (simp_all add: algebra_simps)

lemma softmax_row_constant:
  assumes "0 < n"
  shows "softmax_row (replicate n (Fin c)) = replicate n (Fin (1 / real n))"
  using assms
  by (simp add: softmax_row_def Let_def fmax_list_replicate fsub_def fsum_replicate)

lemma fsum_uniform: "0 < n \<Longrightarrow> fsum (replicate n (Fin (1 / real n))) = Fin 1"
  by (simp add: fsum_replicate)

lemma length_softmax_row: "length (softmax_row xs) = length xs"
  by (simp add: softmax_row_def Let_def)

lemma rows_nth:
  assumes "r < N" "length xs = N * m"
  shows "rows N m xs ! r = map (\<lambda>j. xs ! (r * m + j)) [0..<m]"
proof -
  have le: "r * m + m \<le> N * m"
  proof -
    from assms(1) have "Suc r \<le> N" by simp
    then have "Suc r * m \<le> N * m" by (rule mult_le_mono1)
    then show ?thesis by simp
  qed
  have "take m (drop (r * m) xs) = map (\<lambda>j. xs ! (r * m + j)) [0..<m]"
  proof (rule nth_equalityI)
    show "length (take m (drop (r * m) xs)) = length (map (\<lambda>j. xs ! (r * m + j)) [0..<m])"
      using le assms(2) by simp
  next
    fix j assume "j < length (take m (drop (r * m) xs))"
    then have j: "j < m" by simp
    from le have "r * m \<le> N * m" by linarith
    then have "r * m \<le> length xs" by (simp only: assms(2))
    with j le assms(2) show "take m (drop (r * m) xs) ! j = map (\<lambda>j. xs ! (r * m + j)) [0..<m] ! j"
      by simp
  qed
  with assms(1) show ?thesis by (simp add: rows_def)
qed

lemma softmax_rows_nth:
  assumes "r < N" "length xs = N * m" "j < m"
  shows "concat (map softmax_row (rows N m xs)) ! (r * m + j)
           = softmax_row (map (\<lambda>j. xs ! (r * m + j)) [0..<m]) ! j"
proof -
  have "rows N m xs = map (\<lambda>r. rows N m xs ! r) [0..<length (rows N m xs)]"
    by (simp only: map_nth)
  then have "rows N m xs = map (\<lambda>r. rows N m xs ! r) [0..<N]"
    by (simp only: length_rows)
  then have "map softmax_row (rows N m xs)
          = map softmax_row (map (\<lambda>r. rows N m xs ! r) [0..<N])"
    by simp
  then have "concat (map softmax_row (rows N m xs))
          = concat (map (\<lambda>r. softmax_row (rows N m xs ! r)) [0..<N])"
    by (simp only: map_map comp_def)
  moreover have "concat (map (\<lambda>r. softmax_row (rows N m xs ! r)) [0..<N]) ! (r * m + j)
      = softmax_row (rows N m xs ! r) ! j"
    by (rule nth_concat_uniform)
       (simp_all add: length_softmax_row rows_nth assms)
  ultimately show ?thesis by (simp add: rows_nth assms)
qed

lemma einsum_bid_bjd_same:
  assumes "shape q = [B, n, d]" "shape k = [B, m, d]"
  shows "\<exists>qk. einsum_bid_bjd q k = Inr qk \<and> shape qk = [B, n, m]
           \<and> length (data qk) = B * n * m"
  using assms by (simp add: einsum_bid_bjd_def bdim_def length_tab3)

lemma repeat_flatten_mask:
  assumes "shape msk = b # rest" "numel rest = m"
  shows "flatten_mask msk = Inr \<lparr>shape = [b, m], data = data msk\<rparr>"
    and "repeat_mask h \<lparr>shape = [b, m], data = data msk\<rparr>
          = Inr \<lparr>shape = [b * h, 1, m],
                 data = tab3 (b * h) 1 m (\<lambda>bh u jj. data msk ! ((bh div h) * m + jj))\<rparr>"
  using assms by (simp_all add: flatten_mask_def repeat_mask_def)

lemma masked_sim_value:
  assumes sim: "shape sim = [b * h, n, m]"
    and msk: "shape msk = b # rest" "numel rest = m"
  shows "masked_sim finfo_max h sim (Some msk) =
     Inr (sim\<lparr>data := tab3 (b * h) n m
            (\<lambda>bb i j. if \<not> tab3 (b * h) 1 m (\<lambda>bh u jj. data msk ! ((bh div h) * m + jj))
                              ! ((bidx (b * h) bb * 1 + bidx 1 i) * m + bidx m j)
                       then Fin (- finfo_max)
                       else data sim ! ((bb * n + i) * m + j))\<rparr>)"
  by (simp add: masked_sim_def exists_def repeat_flatten_mask [OF msk] Let_def
      masked_fill_not_def sim)

lemma masked_sim_entries:
  assumes sim: "shape sim = [b * h, n, m]"
    and msk: "shape msk = b # rest" "numel rest = m"
  shows "\<exists>sim'. masked_sim finfo_max h sim (Some msk) = Inr sim' \<and> shape sim' = [b * h, n, m]
           \<and> length (data sim') = b * h * n * m
           \<and> (\<forall>bb < b * h. \<forall>i < n. \<forall>j < m.
                 data sim' ! ((bb * n + i) * m + j) =
                   (if \<not> data msk ! ((bb div h) * m + j) then Fin (- finfo_max)
                    else data sim ! ((bb * n + i) * m + j)))"
proof -
  let ?f = "\<lambda>bb i j. if \<not> tab3 (b * h) 1 m (\<lambda>bh u jj. data msk ! ((bh div h) * m + jj))
                              ! ((bidx (b * h) bb * 1 + bidx 1 i) * m + bidx m j)
                       then Fin (- finfo_max)
                       else data sim ! ((bb * n + i) * m + j)"
  let ?sim' = "sim\<lparr>data := tab3 (b * h) n m ?f\<rparr>"
  have val: "masked_sim finfo_max h sim (Some msk) = Inr ?sim'"
    by (rule masked_sim_value [OF sim msk])
  have shp: "shape ?sim' = [b * h, n, m]" by (simp add: sim)
  have len: "length (data ?sim') = b * h * n * m" by (simp add: length_tab3)
  have ent: "\<forall>bb < b * h. \<forall>i < n. \<forall>j < m.
      data ?sim' ! ((bb * n + i) * m + j) =
        (if \<not> data msk ! ((bb div h) * m + j) then Fin (- finfo_max)
         else data sim ! ((bb * n + i) * m + j))"
  proof (intro allI impI)
    fix bb i j assume idx: "bb < b * h" "i < n" "j < m"
    have "tab3 (b * h) 1 m (\<lambda>bh u jj. data msk ! ((bh div h) * m + jj)) ! ((bb * 1 + 0) * m + j)
            = data msk ! ((bb div h) * m + j)"
      by (rule nth_tab3) (simp_all add: idx)
    moreover have "bidx (b * h) bb = bb" "bidx 1 i = 0" "bidx m j = j"
      using idx by (simp_all add: bidx_less) (simp add: bidx_def)
    ultimately have mk: "tab3 (b * h) 1 m (\<lambda>bh u jj. data msk ! ((bh div h) * m + jj))
                     ! ((bidx (b * h) bb * 1 + bidx 1 i) * m + bidx m j)
                   = data msk ! ((bb div h) * m + j)"
      by (simp only:)
    have "tab3 (b * h) n m ?f ! ((bb * n + i) * m + j) = ?f bb i j"
      using idx by (rule nth_tab3)
    also have "\<dots> = (if \<not> data msk ! ((bb div h) * m + j) then Fin (- finfo_max)
                  else data sim ! ((bb * n + i) * m + j))"
      by (simp only: mk)
    finally show "data ?sim' ! ((bb * n + i) * m + j) =
        (if \<not> data msk ! ((bb div h) * m + j) then Fin (- finfo_max)
         else data sim ! ((bb * n + i) * m + j))"
      by simp
  qed
  from val shp len ent show ?thesis by blast
qed

lemma softmax_last_rank3:
  assumes "shape t = [B, n, m]"
  shows "shape (softmax_last t) = [B, n, m]"
    and "data (softmax_last t) = concat (map softmax_row (rows (B * n) m (data t)))"
  using assms by (simp_all add: softmax_last_def numel_def)

lemma fully_masked_row:
  assumes shp: "shape sim = [b * h, n, m]" and len: "length (data sim) = b * h * n * m"
    and m: "0 < m" and idx: "b0 < b" "hh < h" "i < n"
    and row: "\<forall>j < m. data sim ! (((b0 * h + hh) * n + i) * m + j) = Fin c"
  shows "\<forall>j < m. data (softmax_last sim) ! (((b0 * h + hh) * n + i) * m + j) = Fin (1 / real m)"
proof (intro allI impI)
  fix j assume j: "j < m"
  let ?r = "(b0 * h + hh) * n + i"
  have "b0 * h + hh < b * h" using idx(1,2) by (rule index2_less)
  then have r: "?r < b * h * n" using idx(3) by (rule index2_less)
  have "map (\<lambda>j. data sim ! (?r * m + j)) [0..<m] = map (\<lambda>j. Fin c) [0..<m]"
    by (rule map_cong) (simp_all add: row)
  then have rw: "map (\<lambda>j. data sim ! (?r * m + j)) [0..<m] = replicate m (Fin c)"
    by (simp add: map_replicate_const)
  have "data (softmax_last sim) ! (?r * m + j)
          = softmax_row (map (\<lambda>j. data sim ! (?r * m + j)) [0..<m]) ! j"
    unfolding softmax_last_rank3(2) [OF shp]
    by (rule softmax_rows_nth) (simp_all add: r len j)
  also have "\<dots> = Fin (1 / real m)"
    using j m by (simp add: rw softmax_row_constant)
  finally show "data (softmax_last sim) ! (?r * m + j) = Fin (1 / real m)" .
qed

lemma fsum_map_const: "fsum (map (\<lambda>j. Fin a) [0..<m]) = Fin (real m * a)"
  by (simp add: map_replicate_const fsum_replicate)

text \<open>
  C5: with a boolean mask, every similarity entry whose mask bit is false is replaced by
  \<open>- finfo_max\<close>, the most negative finite number of the tensor's type, which is a
  finite entry and not \<open>-inf\<close>. For a batch row whose context positions (there is at least
  one) are all masked out, the softmax of every head and every query position is the
  uniform distribution: each weight is \<open>1 / m\<close>, a finite number, so the row holds no
  \<open>NaN\<close> and no infinity, and it sums to 1.
\<close>

theorem C5_masked_attention:
  assumes q: "shape q = [b * h, n, d]" and k: "shape k = [b * h, m, d]"
    and msk: "shape msk = b # rest" "numel rest = m"
    and m: "0 < m" and bi: "bi < b"
    and masked: "\<forall>j < m. \<not> data msk ! (bi * m + j)"
  shows "\<exists>qk sim attn.
           einsum_bid_bjd q k = Inr qk
         \<and> masked_sim finfo_max h (tensor_scale qk scl) (Some msk) = Inr sim
         \<and> attention_weights finfo_max h scl q k (Some msk) = Inr attn
         \<and> attn = softmax_last sim \<and> shape attn = [b * h, n, m]
         \<and> (\<forall>bb < b * h. \<forall>i < n. \<forall>j < m.
               \<not> data msk ! ((bb div h) * m + j) \<longrightarrow>
               data sim ! ((bb * n + i) * m + j) = Fin (- finfo_max))
         \<and> (\<forall>hh < h. \<forall>i < n.
               (\<forall>j < m. data attn ! (((bi * h + hh) * n + i) * m + j) = Fin (1 / real m)
                        \<and> is_finite (data attn ! (((bi * h + hh) * n + i) * m + j)))
               \<and> fsum (map (\<lambda>j. data attn ! (((bi * h + hh) * n + i) * m + j)) [0..<m]) = Fin 1)"
proof -
  from einsum_bid_bjd_same [OF q k] obtain qk where qk: "einsum_bid_bjd q k = Inr qk"
    and qks: "shape qk = [b * h, n, m]" by blast
  have ss: "shape (tensor_scale qk scl) = [b * h, n, m]"
    by (simp add: tensor_scale_def qks)
  from masked_sim_entries [OF ss msk, of finfo_max] obtain sim
    where sim: "masked_sim finfo_max h (tensor_scale qk scl) (Some msk) = Inr sim"
      and shp: "shape sim = [b * h, n, m]"
      and len: "length (data sim) = b * h * n * m"
      and ent: "\<forall>bb < b * h. \<forall>i < n. \<forall>j < m.
                 data sim ! ((bb * n + i) * m + j) =
                   (if \<not> data msk ! ((bb div h) * m + j) then Fin (- finfo_max)
                    else data (tensor_scale qk scl) ! ((bb * n + i) * m + j))"
    by blast
  have aw: "attention_weights finfo_max h scl q k (Some msk) = Inr (softmax_last sim)"
    by (simp add: attention_weights_def qk sim)
  have fill: "\<forall>bb < b * h. \<forall>i < n. \<forall>j < m.
               \<not> data msk ! ((bb div h) * m + j) \<longrightarrow>
               data sim ! ((bb * n + i) * m + j) = Fin (- finfo_max)"
    using ent by simp
  have rows: "\<forall>hh < h. \<forall>i < n.
      (\<forall>j < m. data (softmax_last sim) ! (((bi * h + hh) * n + i) * m + j) = Fin (1 / real m)
               \<and> is_finite (data (softmax_last sim) ! (((bi * h + hh) * n + i) * m + j)))
      \<and> fsum (map (\<lambda>j. data (softmax_last sim) ! (((bi * h + hh) * n + i) * m + j)) [0..<m])
          = Fin 1"
  proof (intro allI impI)
    fix hh i assume hi: "hh < h" "i < n"
    have bb: "bi * h + hh < b * h" using bi hi(1) by (rule index2_less)
    have dv: "(bi * h + hh) div h = bi" using hi(1) by simp
    have row: "\<forall>j < m. data sim ! (((bi * h + hh) * n + i) * m + j) = Fin (- finfo_max)"
      using fill bb hi(2) masked by (simp add: dv)
    have unif: "\<forall>j < m. data (softmax_last sim) ! (((bi * h + hh) * n + i) * m + j)
                  = Fin (1 / real m)"
      by (rule fully_masked_row [OF shp len m bi hi row])
    have "map (\<lambda>j. data (softmax_last sim) ! (((bi * h + hh) * n + i) * m + j)) [0..<m]
            = map (\<lambda>j. Fin (1 / real m)) [0..<m]"
      by (rule map_cong) (simp_all add: unif)
    then have "fsum (map (\<lambda>j. data (softmax_last sim) ! (((bi * h + hh) * n + i) * m + j)) [0..<m])
            = Fin 1"
      using m by (simp only: fsum_map_const) simp
    with unif show "(\<forall>j < m. data (softmax_last sim) ! (((bi * h + hh) * n + i) * m + j)
                  = Fin (1 / real m)
               \<and> is_finite (data (softmax_last sim) ! (((bi * h + hh) * n + i) * m + j)))
      \<and> fsum (map (\<lambda>j. data (softmax_last sim) ! (((bi * h + hh) * n + i) * m + j)) [0..<m])
          = Fin 1"
      by simp
  qed
  have "shape (softmax_last sim) = [b * h, n, m]"
    by (rule softmax_last_rank3(1) [OF shp])
  with qk sim aw fill rows show ?thesis by blast
qed

text \<open>Had the fill value been \<open>-inf\<close>, the softmax of such a row would be \<open>NaN\<close> throughout.\<close>

lemma softmax_row_all_neg_inf: "0 < n \<Longrightarrow> softmax_row (replicate n NInf) = replicate n NaN"
proof (induction n)
  case 0
  then show ?case by simp
next
  case (Suc n)
  have mx: "fmax_list (replicate (Suc n) NInf) = NInf"
    by (induction n) simp_all
  show ?case
    unfolding softmax_row_def Let_def mx
    by (simp add: fsub_def)
qed

theorem C5_masked_attention_witness:
  "\<exists>attn. attention_weights 65504 1 1 \<lparr>shape = [1, 1, 1], data = [Fin 3]\<rparr>
             \<lparr>shape = [1, 2, 1], data = [Fin 1, Fin 2]\<rparr>
             (Some \<lparr>shape = [1, 2], data = [False, False]\<rparr>) = Inr attn
         \<and> shape attn = [1, 1, 2]
         \<and> data attn ! 0 = Fin (1 / 2) \<and> data attn ! 1 = Fin (1 / 2)"
proof -
  have "\<exists>qk sim attn.
           einsum_bid_bjd \<lparr>shape = [1, 1, 1], data = [Fin 3]\<rparr>
             \<lparr>shape = [1, 2, 1], data = [Fin 1, Fin 2]\<rparr> = Inr qk
         \<and> masked_sim 65504 1 (tensor_scale qk 1) (Some \<lparr>shape = [1, 2], data = [False, False]\<rparr>)
             = Inr sim
         \<and> attention_weights 65504 1 1 \<lparr>shape = [1, 1, 1], data = [Fin 3]\<rparr>
             \<lparr>shape = [1, 2, 1], data = [Fin 1, Fin 2]\<rparr>
             (Some \<lparr>shape = [1, 2], data = [False, False]\<rparr>) = Inr attn
         \<and> attn = softmax_last sim \<and> shape attn = [1 * 1, 1, 2]
         \<and> (\<forall>bb < 1 * 1. \<forall>i < 1. \<forall>j < 2.
               \<not> data \<lparr>shape = [1, 2], data = [False, False]\<rparr> ! ((bb div 1) * 2 + j) \<longrightarrow>
               data sim ! ((bb * 1 + i) * 2 + j) = Fin (- 65504))
         \<and> (\<forall>hh < 1. \<forall>i < 1.
               (\<forall>j < 2. data attn ! (((0 * 1 + hh) * 1 + i) * 2 + j) = Fin (1 / real (2::nat))
                        \<and> is_finite (data attn ! (((0 * 1 + hh) * 1 + i) * 2 + j)))
               \<and> fsum (map (\<lambda>j. data attn ! (((0 * 1 + hh) * 1 + i) * 2 + j)) [0..<2]) = Fin 1)"
    by (rule C5_masked_attention [where rest = "[2]" and d = 1])
       (simp_all add: numel_def less_Suc_eq numeral_2_eq_2)
  then obtain attn where
      aw: "attention_weights 65504 1 1 \<lparr>shape = [1, 1, 1], data = [Fin 3]\<rparr>
             \<lparr>shape = [1, 2, 1], data = [Fin 1, Fin 2]\<rparr>
             (Some \<lparr>shape = [1, 2], data = [False, False]\<rparr>) = Inr attn"
    and sh: "shape attn = [1 * 1, 1, 2]"
    and rw: "\<forall>hh < 1. \<forall>i < 1.
               (\<forall>j < 2. data attn ! (((0 * 1 + hh) * 1 + i) * 2 + j) = Fin (1 / real (2::nat))
                        \<and> is_finite (data attn ! (((0 * 1 + hh) * 1 + i) * 2 + j)))
               \<and> fsum (map (\<lambda>j. data attn ! (((0 * 1 + hh) * 1 + i) * 2 + j)) [0..<2]) = Fin 1"
    by (elim exE conjE) (rule that)
  from rw have "\<forall>j < 2. data attn ! (((0 * 1 + 0) * 1 + 0) * 2 + j) = Fin (1 / real (2::nat))"
    by (simp del: One_nat_def)
  then have "data attn ! (0 * 2 + 0) = Fin (1 / 2)" "data attn ! (0 * 2 + 1) = Fin (1 / 2)"
    by simp_all
  with aw sh show ?thesis by simp
qed

section \<open>Absent optional arguments of CrossAttention\<close>

lemma nn_Linear_forward_errors: "nn_Linear_forward l x = Inl e \<Longrightarrow> e = ShapeError"
  by (auto simp: nn_Linear_forward_def dest: F_linear_errors)

lemma split_heads_errors: "split_heads h t = Inl e \<Longrightarrow> e = ShapeError"
  by (auto simp: split_heads_def Let_def split: list.splits if_splits)

lemma merge_heads_errors: "merge_heads h t = Inl e \<Longrightarrow> e = ShapeError"
  by (auto simp: merge_heads_def split: list.splits if_splits)

lemma einsum_bid_bjd_errors: "einsum_bid_bjd q k = Inl e \<Longrightarrow> e = ShapeError"
  by (auto simp: einsum_bid_bjd_def split: list.splits option.splits)

lemma einsum_bij_bjd_errors: "einsum_bij_bjd a v = Inl e \<Longrightarrow> e = ShapeError"
  by (auto simp: einsum_bij_bjd_def split: list.splits option.splits)

lemma flatten_mask_errors: "flatten_mask msk = Inl e \<Longrightarrow> e = ShapeError"
  by (auto simp: flatten_mask_def split: list.splits)

lemma repeat_mask_errors: "repeat_mask h msk = Inl e \<Longrightarrow> e = ShapeError"
  by (auto simp: repeat_mask_def split: list.splits)

lemma masked_fill_not_errors: "masked_fill_not sim msk v = Inl e \<Longrightarrow> e = ShapeError"
  by (auto simp: masked_fill_not_def split: list.splits if_splits)

lemma masked_sim_errors: "masked_sim finfo_max h sim msk = Inl e \<Longrightarrow> e = ShapeError"
  by (auto simp: masked_sim_def Let_def split: if_splits sum.splits
      dest: flatten_mask_errors repeat_mask_errors masked_fill_not_errors)

lemma attention_weights_errors:
  "attention_weights finfo_max h scl q k msk = Inl e \<Longrightarrow> e = ShapeError"
  by (auto simp: attention_weights_def split: sum.splits
      dest: einsum_bid_bjd_errors masked_sim_errors)

lemma CrossAttention_forward_given_context_errors:
  assumes "CrossAttention_forward finfo_max dropout_fn m x (Some c) msk = Inl e"
  shows "e = ShapeError"
  using assms
  unfolding CrossAttention_forward_def Let_def default_Some
  by (auto split: sum.splits
      dest: nn_Linear_forward_errors split_heads_errors attention_weights_errors
        einsum_bij_bjd_errors merge_heads_errors)

lemma CrossAttention_forward_no_context:
  "CrossAttention_forward finfo_max dropout_fn m x None msk =
     (case nn_Linear_forward (to_q m) x of
        Inl e \<Rightarrow> Inl e
      | Inr q \<Rightarrow> Inl (NameError ''isfunction''))"
  unfolding CrossAttention_forward_def Let_def default_None
  by (simp split: sum.splits)

lemma unit_attention_init:
  "CrossAttention_init (\<lambda>name shp. [Fin 1]) 1 (Some 1) 1 1 0 = Inr unit_attention"
  by (simp add: CrossAttention_init_def default_Some nn_Linear_init_def unit_attention_def)

lemma F_linear_unit: "F_linear \<lparr>shape = [Suc 0, Suc 0, Suc 0], data = [Fin a]\<rparr> \<lparr>shape = [Suc 0, Suc 0], data = [Fin 1]\<rparr> None
   = Inr \<lparr>shape = [Suc 0, Suc 0, Suc 0], data = [Fin a]\<rparr>"
  by (simp add: F_linear_def numel_def rows_def linear_row_def dot_def)

lemma F_linear_unit_bias: "F_linear \<lparr>shape = [Suc 0, Suc 0, Suc 0], data = [Fin a]\<rparr> \<lparr>shape = [Suc 0, Suc 0], data = [Fin 1]\<rparr>
     (Some \<lparr>shape = [Suc 0], data = [Fin 1]\<rparr>)
   = Inr \<lparr>shape = [Suc 0, Suc 0, Suc 0], data = [Fin (a + 1)]\<rparr>"
  by (simp add: F_linear_def numel_def rows_def linear_row_def dot_def)

lemma tab3_unit: "tab3 (Suc 0) (Suc 0) (Suc 0) f = [f 0 0 0]"
  by (simp add: tab3_def tab2_def)

lemma split_heads_unit: "split_heads (Suc 0) \<lparr>shape = [Suc 0, Suc 0, Suc 0], data = [v]\<rparr> = Inr \<lparr>shape = [Suc 0, Suc 0, Suc 0], data = [v]\<rparr>"
  by (simp add: split_heads_def tab3_unit)

lemma merge_heads_unit: "merge_heads (Suc 0) \<lparr>shape = [Suc 0, Suc 0, Suc 0], data = [v]\<rparr> = Inr \<lparr>shape = [Suc 0, Suc 0, Suc 0], data = [v]\<rparr>"
  by (simp add: merge_heads_def tab3_unit)

lemma attention_weights_unit: "attention_weights fm (Suc 0) 1 \<lparr>shape = [Suc 0, Suc 0, Suc 0], data = [Fin a]\<rparr>
     \<lparr>shape = [Suc 0, Suc 0, Suc 0], data = [Fin b]\<rparr> None = Inr \<lparr>shape = [Suc 0, Suc 0, Suc 0], data = [Fin 1]\<rparr>"
  by (simp add: attention_weights_def einsum_bid_bjd_def bdim_def bidx_def tab3_unit
      masked_sim_def exists_def tensor_scale_def softmax_last_def numel_def rows_def
      softmax_row_def fsub_def)

lemma einsum_bij_bjd_unit: "einsum_bij_bjd \<lparr>shape = [Suc 0, Suc 0, Suc 0], data = [Fin 1]\<rparr> \<lparr>shape = [Suc 0, Suc 0, Suc 0], data = [Fin b]\<rparr>
   = Inr \<lparr>shape = [Suc 0, Suc 0, Suc 0], data = [Fin b]\<rparr>"
  by (simp add: einsum_bij_bjd_def bdim_def bidx_def tab3_unit)

lemma unit_attention_forward:
  "CrossAttention_forward fm (\<lambda>t. t) unit_attention \<lparr>shape = [Suc 0, Suc 0, Suc 0], data = [Fin 2]\<rparr>
     (Some \<lparr>shape = [Suc 0, Suc 0, Suc 0], data = [Fin 2]\<rparr>) None
   = Inr \<lparr>shape = [Suc 0, Suc 0, Suc 0], data = [Fin 3]\<rparr>"
  unfolding CrossAttention_forward_def Let_def default_Some
  by (simp add: unit_attention_def nn_Linear_forward_def F_linear_unit F_linear_unit_bias split_heads_unit merge_heads_unit attention_weights_unit einsum_bij_bjd_unit)

text \<open>
  C1: absent arguments do not resolve to the query side. \<^verbatim>\<open>default\<close> reaches \<^verbatim>\<open>isfunction\<close>, a name
  the module neither defines nor imports, whenever its first argument is \<^verbatim>\<open>None\<close>.
  So constructing with \<^verbatim>\<open>context_dim\<close> absent raises \<^verbatim>\<open>NameError\<close> for every choice
  of the other arguments, and \<^verbatim>\<open>forward(x)\<close> with \<^verbatim>\<open>context\<close> absent raises it as soon
  as the query projection has succeeded; with the argument given, neither call can raise
  it, and on the one-by-one module below \<^verbatim>\<open>forward(x, context=x)\<close> returns a tensor.
\<close>

theorem C1_absent_argument_raises_NameError:
  "CrossAttention_init draw query_dim None n_heads dim_head dropout
     = Inl (NameError ''isfunction'')
   \<and> CrossAttention_init draw query_dim (Some context_dim) n_heads dim_head dropout
       \<noteq> Inl (NameError ''isfunction'')
   \<and> CrossAttention_init (\<lambda>name shp. [Fin 1]) 1 (Some 1) 1 1 0 = Inr unit_attention
   \<and> CrossAttention_forward finfo_max (\<lambda>t. t) unit_attention
        \<lparr>shape = [1, 1, 1], data = [Fin 2]\<rparr> (Some \<lparr>shape = [1, 1, 1], data = [Fin 2]\<rparr>) None
       = Inr \<lparr>shape = [1, 1, 1], data = [Fin 3]\<rparr>
   \<and> CrossAttention_forward finfo_max (\<lambda>t. t) unit_attention
        \<lparr>shape = [1, 1, 1], data = [Fin 2]\<rparr> None None
       = Inl (NameError ''isfunction'')
   \<and> CrossAttention_forward finfo_max dropout_fn m x (Some c) msk \<noteq> Inl (NameError ''isfunction'')
   \<and> CrossAttention_forward finfo_max dropout_fn m x None msk =
       (case nn_Linear_forward (to_q m) x of
          Inl e \<Rightarrow> Inl e
        | Inr q \<Rightarrow> Inl (NameError ''isfunction''))"
proof (intro conjI)
  show "CrossAttention_init draw query_dim None n_heads dim_head dropout
          = Inl (NameError ''isfunction'')"
    by (simp add: CrossAttention_init_def default_None)
  show "CrossAttention_init draw query_dim (Some context_dim) n_heads dim_head dropout
          \<noteq> Inl (NameError ''isfunction'')"
    by (simp add: CrossAttention_init_def default_Some Let_def)
  show "CrossAttention_init (\<lambda>name shp. [Fin 1]) 1 (Some 1) 1 1 0 = Inr unit_attention"
    by (rule unit_attention_init)
  show "CrossAttention_forward finfo_max (\<lambda>t. t) unit_attention
        \<lparr>shape = [1, 1, 1], data = [Fin 2]\<rparr> (Some \<lparr>shape = [1, 1, 1], data = [Fin 2]\<rparr>) None
       = Inr \<lparr>shape = [1, 1, 1], data = [Fin 3]\<rparr>"
    using unit_attention_forward [of finfo_max] by simp
  show "CrossAttention_forward finfo_max (\<lambda>t. t) unit_attention
        \<lparr>shape = [1, 1, 1], data = [Fin 2]\<rparr> None None
       = Inl (NameError ''isfunction'')"
    using F_linear_unit [of 2]
    by (simp add: CrossAttention_forward_no_context nn_Linear_forward_def unit_attention_def)
  show "CrossAttention_forward finfo_max dropout_fn m x (Some c) msk
          \<noteq> Inl (NameError ''isfunction'')"
    using CrossAttention_forward_given_context_errors [of finfo_max dropout_fn m x c msk]
    by auto
  show "CrossAttention_forward finfo_max dropout_fn m x None msk =
       (case nn_Linear_forward (to_q m) x of
          Inl e \<Rightarrow> Inl e
        | Inr q \<Rightarrow> Inl (NameError ''isfunction''))"
    by (rule CrossAttention_forward_no_context)
qed

end
